theory Spec2Isabelle
  imports Complex_Main
begin

section \<open>Particle Life: the simulation core of particle-life.js\<close>

text \<open>
  JavaScript numbers are idealised as real numbers. Whatever would leave the reals in
  the program (a division by zero giving an infinity or NaN, arithmetic on
  \<^verbatim>\<open>undefined\<close>) and every exception the program can throw is an explicit
  error value of the model. Rendering and DOM bookkeeping are left out; the fields
  \<^verbatim>\<open>x\<close>, \<^verbatim>\<open>y\<close> and \<^verbatim>\<open>type\<close> of a particle are called
  \<open>pos_x\<close>, \<open>pos_y\<close> and \<open>ptype\<close>, and the display colour of a particle
  (a function of its type) is not stored.
\<close>

subsection \<open>Configuration and state\<close>

record config =
  particleCount :: nat
  particleRadius :: real
  colors :: "string list"
  maxForce :: real
  friction :: real
  interactionRadius :: real
  trails :: bool
  trailAlpha :: real
  glow :: bool
  wrap :: bool
  speed :: real
  paused :: bool

definition CONFIG :: config where
  "CONFIG = \<lparr> particleCount = 1500, particleRadius = 5 / 2,
      colors = [''#ff4757'', ''#2ed573'', ''#3498ff'', ''#ffc312'', ''#a55eea'', ''#00d2d3''],
      maxForce = 1, friction = 1 / 2, interactionRadius = 80,
      trails = True, trailAlpha = 8 / 100, glow = True, wrap = True,
      speed = 1, paused = False \<rparr>"

text \<open>\<^verbatim>\<open>let cellSize = CONFIG.interactionRadius\<close>: read once when the script loads
  and never assigned again.\<close>

definition cellSize :: real where
  "cellSize = interactionRadius CONFIG"

record particle =
  pos_x :: real
  pos_y :: real
  vx :: real
  vy :: real
  ptype :: nat

record ruleset =
  matrix :: "real list list"

type_synonym grid = "int \<times> int \<Rightarrow> nat list option"

record world =
  particles :: "particle list"
  rules :: ruleset
  width :: real
  height :: real
  spatialHash :: grid

datatype js_error =
    TypeError      \<comment> \<open>thrown by the engine: a property of \<^verbatim>\<open>undefined\<close> is read or
                       written, or something that is not a function is called\<close>
  | DivisionByZero \<comment> \<open>no exception in the program: a division by zero gave an
                       infinity or NaN and the real-number model stops\<close>
  | NotANumber     \<comment> \<open>no exception in the program: arithmetic on \<^verbatim>\<open>undefined\<close>
                       gave NaN and the real-number model stops\<close>
  | Sparse         \<comment> \<open>no exception in the program: an array was written past its end
                       and the list model stops\<close>

definition bind_err :: "js_error + 'a \<Rightarrow> ('a \<Rightarrow> js_error + 'b) \<Rightarrow> js_error + 'b" where
  "bind_err m f = (case m of Inl e \<Rightarrow> Inl e | Inr v \<Rightarrow> f v)"

text \<open>\<^verbatim>\<open>Math.random()\<close>: the sequence of values the calls will return, each in
  \<open>[0, 1)\<close>; a function that draws returns the sequence that is left.\<close>

type_synonym random = "nat \<Rightarrow> real"

definition random_ok :: "random \<Rightarrow> bool" where
  "random_ok rnd = (\<forall>k. 0 \<le> rnd k \<and> rnd k < 1)"

definition advance :: "nat \<Rightarrow> random \<Rightarrow> random" where
  "advance n rnd = (\<lambda>k. rnd (k + n))"

definition numTypes :: "config \<Rightarrow> nat" where
  "numTypes cfg = length (colors cfg)"

subsection \<open>The Particle class\<close>

definition Particle :: "real \<Rightarrow> real \<Rightarrow> nat \<Rightarrow> particle" where
  "Particle x y t = \<lparr> pos_x = x, pos_y = y, vx = 0, vy = 0, ptype = t \<rparr>"

text \<open>\<^verbatim>\<open>update(dt)\<close> in its three stages: the position moves by the velocity, the
  velocity is damped, the boundary is handled.\<close>

definition applyVelocity :: "config \<Rightarrow> real \<Rightarrow> particle \<Rightarrow> particle" where
  "applyVelocity cfg dt p =
     p\<lparr> pos_x := pos_x p + vx p * dt * speed cfg,
        pos_y := pos_y p + vy p * dt * speed cfg \<rparr>"

definition applyFriction :: "config \<Rightarrow> real \<Rightarrow> particle \<Rightarrow> particle" where
  "applyFriction cfg dt p =
     p\<lparr> vx := vx p * (1 - friction cfg * dt),
        vy := vy p * (1 - friction cfg * dt) \<rparr>"

definition wrapAxis :: "real \<Rightarrow> real \<Rightarrow> real" where
  "wrapAxis extent v =
     (let v1 = (if v < 0 then v + extent else v)
      in if v1 \<ge> extent then v1 - extent else v1)"

definition bounceAxis :: "real \<Rightarrow> real \<times> real \<Rightarrow> real \<times> real" where
  "bounceAxis extent pv =
     (case pv of (v, vel) \<Rightarrow>
        if v < 0 \<or> v \<ge> extent
        then (max 0 (min (extent - 1) v), vel * (- (8 / 10)))
        else (v, vel))"

definition boundary :: "config \<Rightarrow> world \<Rightarrow> particle \<Rightarrow> particle" where
  "boundary cfg w p =
     (if wrap cfg
      then p\<lparr> pos_x := wrapAxis (width w) (pos_x p),
              pos_y := wrapAxis (height w) (pos_y p) \<rparr>
      else
        (let bx = bounceAxis (width w) (pos_x p, vx p);
             by = bounceAxis (height w) (pos_y p, vy p)
         in p\<lparr> pos_x := fst bx, vx := snd bx, pos_y := fst by, vy := snd by \<rparr>))"

definition update :: "config \<Rightarrow> world \<Rightarrow> real \<Rightarrow> particle \<Rightarrow> particle" where
  "update cfg w dt p = boundary cfg w (applyFriction cfg dt (applyVelocity cfg dt p))"

subsection \<open>Particle management\<close>

definition createParticles :: "config \<Rightarrow> random \<Rightarrow> nat \<Rightarrow> world \<Rightarrow> world \<times> random" where
  "createParticles cfg rnd count w =
     (w\<lparr> particles :=
          map (\<lambda>i. Particle (rnd (3 * i + 1) * width w) (rnd (3 * i + 2) * height w)
                      (nat \<lfloor>rnd (3 * i) * real (numTypes cfg)\<rfloor>))
              [0..<count] \<rparr>,
      advance (3 * count) rnd)"

definition spawnParticles ::
    "config \<Rightarrow> random \<Rightarrow> real \<Rightarrow> real \<Rightarrow> nat \<Rightarrow> world \<Rightarrow> world \<times> random" where
  "spawnParticles cfg rnd x y count w =
     (w\<lparr> particles := particles w @
          map (\<lambda>i. let t = nat \<lfloor>rnd (3 * i) * real (numTypes cfg)\<rfloor>;
                       angle = rnd (3 * i + 1) * pi * 2;
                       radius = rnd (3 * i + 2) * 30
                   in Particle (x + cos angle * radius) (y + sin angle * radius) t)
              [0..<count] \<rparr>,
      advance (3 * count) rnd)"

definition reset :: "config \<Rightarrow> random \<Rightarrow> world \<Rightarrow> world \<times> random" where
  "reset cfg rnd w = createParticles cfg rnd (particleCount cfg) w"

subsection \<open>Spatial hashing\<close>

text \<open>The keys of \<^verbatim>\<open>spatialHash\<close> are the strings \<^verbatim>\<open>"cellX,cellY"\<close>; the model
  keeps the pair of integers the string is printed from.\<close>

fun buildSpatialHash_loop :: "particle list \<Rightarrow> nat \<Rightarrow> grid \<Rightarrow> grid" where
  "buildSpatialHash_loop [] i h = h"
| "buildSpatialHash_loop (p # ps) i h =
     (let cellX = \<lfloor>pos_x p / cellSize\<rfloor>;
          cellY = \<lfloor>pos_y p / cellSize\<rfloor>;
          key = (cellX, cellY)
      in buildSpatialHash_loop ps (Suc i)
           (h(key \<mapsto> (case h key of None \<Rightarrow> [] | Some l \<Rightarrow> l) @ [i])))"

definition buildSpatialHash :: "world \<Rightarrow> world" where
  "buildSpatialHash w = w\<lparr> spatialHash := buildSpatialHash_loop (particles w) 0 Map.empty \<rparr>"

definition foldCell :: "int \<Rightarrow> int \<Rightarrow> int" where
  "foldCell maxCell n =
     (let n1 = (if n < 0 then n + maxCell else n)
      in if n1 \<ge> maxCell then n1 - maxCell else n1)"

definition neighborKey :: "config \<Rightarrow> world \<Rightarrow> int \<times> int \<Rightarrow> int \<times> int" where
  "neighborKey cfg w k =
     (case k of (nx, ny) \<Rightarrow>
        if wrap cfg
        then (let maxCellX = \<lceil>width w / cellSize\<rceil>;
                  maxCellY = \<lceil>height w / cellSize\<rceil>
              in (foldCell maxCellX nx, foldCell maxCellY ny))
        else (nx, ny))"

definition getNeighbors :: "config \<Rightarrow> world \<Rightarrow> particle \<Rightarrow> nat list" where
  "getNeighbors cfg w p =
     (let cellX = \<lfloor>pos_x p / cellSize\<rfloor>;
          cellY = \<lfloor>pos_y p / cellSize\<rfloor>
      in concat (map (\<lambda>dx. concat (map (\<lambda>dy.
           (case spatialHash w (neighborKey cfg w (cellX + dx, cellY + dy)) of
              None \<Rightarrow> []
            | Some l \<Rightarrow> l)) [- 1, 0, 1])) [- 1, 0, 1]))"

subsection \<open>Physics\<close>

text \<open>A division of the program, over the reals: a zero divisor gives an infinity or
  NaN in the program and \<open>DivisionByZero\<close> here.\<close>

definition divide_js :: "real \<Rightarrow> real \<Rightarrow> js_error + real" where
  "divide_js a b = (if b = 0 then Inl DivisionByZero else Inr (a / b))"

definition wrapDelta :: "real \<Rightarrow> real \<Rightarrow> real" where
  "wrapDelta extent d =
     (let d1 = (if d > extent / 2 then d - extent else d)
      in if d1 < - extent / 2 then d1 + extent else d1)"

definition separation :: "config \<Rightarrow> world \<Rightarrow> particle \<Rightarrow> particle \<Rightarrow> real \<times> real" where
  "separation cfg w p other =
     (let dx = pos_x other - pos_x p;
          dy = pos_y other - pos_y p
      in if wrap cfg then (wrapDelta (width w) dx, wrapDelta (height w) dy) else (dx, dy))"

definition distance :: "config \<Rightarrow> world \<Rightarrow> particle \<Rightarrow> particle \<Rightarrow> real" where
  "distance cfg w p other =
     (case separation cfg w p other of (dx, dy) \<Rightarrow> sqrt (dx * dx + dy * dy))"

text \<open>\<^verbatim>\<open>rules.matrix[a][b]\<close>: reading a column of a missing row throws; a missing
  column of a row that is there reads \<^verbatim>\<open>undefined\<close> (\<open>None\<close>).\<close>

definition strengthOf :: "ruleset \<Rightarrow> nat \<Rightarrow> nat \<Rightarrow> js_error + real option" where
  "strengthOf r a b =
     (if a < length (matrix r)
      then Inr (if b < length (matrix r ! a) then Some (matrix r ! a ! b) else None)
      else Inl TypeError)"

text \<open>The scalar force of a pair in range: the repulsion zone below \<open>minDist\<close>, the
  interaction zone from there on. Arithmetic on an \<^verbatim>\<open>undefined\<close> strength is NaN.\<close>

definition forceOf :: "config \<Rightarrow> real option \<Rightarrow> real \<Rightarrow> js_error + real" where
  "forceOf cfg strength d =
     (let minDist = particleRadius cfg * 4
      in if d < minDist
         then bind_err (divide_js d minDist) (\<lambda>q. Inr ((q - 1) * maxForce cfg))
         else bind_err (divide_js (d - minDist) (interactionRadius cfg - minDist))
                (\<lambda>normalizedDist.
                   case strength of
                     None \<Rightarrow> Inl NotANumber
                   | Some s \<Rightarrow> Inr (s * (1 - normalizedDist) * maxForce cfg)))"

text \<open>The body of the loop over the neighbours, for one other particle: \<open>None\<close> when
  the pair is skipped, the vector added to \<open>(fx, fy)\<close> otherwise. The local
  \<^verbatim>\<open>dist\<close> of the program is \<open>d\<close> here.\<close>

definition pairForce ::
    "config \<Rightarrow> world \<Rightarrow> particle \<Rightarrow> particle \<Rightarrow> js_error + (real \<times> real) option" where
  "pairForce cfg w p other =
     (case separation cfg w p other of (dx, dy) \<Rightarrow>
        let distSq = dx * dx + dy * dy;
            d = sqrt distSq
        in if d < interactionRadius cfg \<and> d > 0
           then bind_err (strengthOf (rules w) (ptype p) (ptype other)) (\<lambda>strength.
                bind_err (forceOf cfg strength d) (\<lambda>force.
                bind_err (divide_js dx d) (\<lambda>ux.
                bind_err (divide_js dy d) (\<lambda>uy.
                  Inr (Some (ux * force, uy * force))))))
           else Inr None)"

fun accumulate ::
    "config \<Rightarrow> world \<Rightarrow> nat \<Rightarrow> particle \<Rightarrow> nat list \<Rightarrow> real \<times> real \<Rightarrow> js_error + real \<times> real" where
  "accumulate cfg w i p [] f = Inr f"
| "accumulate cfg w i p (j # js) f =
     (if i = j then accumulate cfg w i p js f
      else if j < length (particles w)
      then (case pairForce cfg w p (particles w ! j) of
              Inl e \<Rightarrow> Inl e
            | Inr None \<Rightarrow> accumulate cfg w i p js f
            | Inr (Some g) \<Rightarrow> accumulate cfg w i p js (fst f + fst g, snd f + snd g))
      else Inl TypeError)"

definition addForce :: "real \<times> real \<Rightarrow> particle \<Rightarrow> particle" where
  "addForce f p = p\<lparr> vx := vx p + fst f, vy := vy p + snd f \<rparr>"

fun applyForces_loop :: "config \<Rightarrow> world \<Rightarrow> nat list \<Rightarrow> js_error + world" where
  "applyForces_loop cfg w [] = Inr w"
| "applyForces_loop cfg w (i # is) =
     (let p = particles w ! i
      in case accumulate cfg w i p (getNeighbors cfg w p) (0, 0) of
           Inl e \<Rightarrow> Inl e
         | Inr f \<Rightarrow>
             applyForces_loop cfg (w\<lparr> particles := (particles w)[i := addForce f p] \<rparr>) is)"

definition applyForces :: "config \<Rightarrow> world \<Rightarrow> js_error + world" where
  "applyForces cfg w =
     (let w1 = buildSpatialHash w
      in applyForces_loop cfg w1 [0..<length (particles w1)])"

text \<open>The physics of one animation frame: nothing when paused, otherwise the forces
  and then the update of every particle with \<open>dt = 1\<close>.\<close>

definition animate :: "config \<Rightarrow> world \<Rightarrow> js_error + world" where
  "animate cfg w =
     (if paused cfg then Inr w
      else bind_err (applyForces cfg w) (\<lambda>w1.
             Inr (w1\<lparr> particles := map (update cfg w1 1) (particles w1) \<rparr>)))"

subsection \<open>Rule generation and presets\<close>

definition generateRandomRules :: "config \<Rightarrow> random \<Rightarrow> ruleset \<times> random" where
  "generateRandomRules cfg rnd =
     (let n = numTypes cfg
      in (\<lparr> matrix = map (\<lambda>i. map (\<lambda>j. rnd (i * n + j) * 2 - 1) [0..<n]) [0..<n] \<rparr>,
          advance (n * n) rnd))"

definition cells :: ruleset where
  "cells = \<lparr> matrix =
     [[ 0.8, -0.2, -0.2, -0.2, -0.2, -0.2],
      [-0.2,  0.8, -0.2, -0.2, -0.2, -0.2],
      [-0.2, -0.2,  0.8, -0.2, -0.2, -0.2],
      [-0.2, -0.2, -0.2,  0.8, -0.2, -0.2],
      [-0.2, -0.2, -0.2, -0.2,  0.8, -0.2],
      [-0.2, -0.2, -0.2, -0.2, -0.2,  0.8]] \<rparr>"

definition swarm :: ruleset where
  "swarm = \<lparr> matrix =
     [[ 0.1, -0.5,  0.5,  0.3,  0.3,  0.3],
      [ 0.8,  0.1, -0.1, -0.1, -0.1, -0.1],
      [ 0.3,  0.6,  0.1, -0.1, -0.1, -0.1],
      [ 0.3,  0.6, -0.1,  0.1, -0.1, -0.1],
      [ 0.3,  0.6, -0.1, -0.1,  0.1, -0.1],
      [ 0.3,  0.6, -0.1, -0.1, -0.1,  0.1]] \<rparr>"

definition predator :: ruleset where
  "predator = \<lparr> matrix =
     [[ 0.1,  0.8, -0.5,  0.0,  0.0,  0.0],
      [-0.8,  0.1,  0.8,  0.0,  0.0,  0.0],
      [ 0.8, -0.8,  0.1,  0.0,  0.0,  0.0],
      [ 0.0,  0.0,  0.0,  0.5, -0.3, -0.3],
      [ 0.0,  0.0,  0.0, -0.3,  0.5, -0.3],
      [ 0.0,  0.0,  0.0, -0.3, -0.3,  0.5]] \<rparr>"

definition symbiosis :: ruleset where
  "symbiosis = \<lparr> matrix =
     [[ 0.2,  0.7, -0.3, -0.3,  0.0,  0.0],
      [ 0.7,  0.2, -0.3, -0.3,  0.0,  0.0],
      [-0.3, -0.3,  0.2,  0.7,  0.0,  0.0],
      [-0.3, -0.3,  0.7,  0.2,  0.0,  0.0],
      [ 0.0,  0.0,  0.0,  0.0,  0.2,  0.7],
      [ 0.0,  0.0,  0.0,  0.0,  0.7,  0.2]] \<rparr>"

definition chains :: ruleset where
  "chains = \<lparr> matrix =
     [[ 0.3,  0.5, -0.3, -0.3, -0.3, -0.3],
      [-0.5,  0.3,  0.5, -0.3, -0.3, -0.3],
      [-0.3, -0.5,  0.3,  0.5, -0.3, -0.3],
      [-0.3, -0.3, -0.5,  0.3,  0.5, -0.3],
      [-0.3, -0.3, -0.3, -0.5,  0.3,  0.5],
      [ 0.5, -0.3, -0.3, -0.3, -0.5,  0.3]] \<rparr>"

text \<open>The own properties of the object literal \<^verbatim>\<open>PRESETS\<close>: each is a function of
  no argument; \<^verbatim>\<open>random\<close> draws, the others return a literal.\<close>

definition PRESETS :: "string \<Rightarrow> (config \<Rightarrow> random \<Rightarrow> ruleset \<times> random) option" where
  "PRESETS name =
     (if name = ''random'' then Some (\<lambda>cfg rnd. generateRandomRules cfg rnd)
      else if name = ''cells'' then Some (\<lambda>cfg rnd. (cells, rnd))
      else if name = ''swarm'' then Some (\<lambda>cfg rnd. (swarm, rnd))
      else if name = ''predator'' then Some (\<lambda>cfg rnd. (predator, rnd))
      else if name = ''symbiosis'' then Some (\<lambda>cfg rnd. (symbiosis, rnd))
      else if name = ''chains'' then Some (\<lambda>cfg rnd. (chains, rnd))
      else None)"

definition preset_names :: "string list" where
  "preset_names = [''random'', ''cells'', ''swarm'', ''predator'', ''symbiosis'', ''chains'']"

text \<open>The names every object literal inherits from \<^verbatim>\<open>Object.prototype\<close>: for
  these \<^verbatim>\<open>PRESETS[name]\<close> is not \<^verbatim>\<open>undefined\<close>.\<close>

definition Object_prototype :: "string list" where
  "Object_prototype =
     [''constructor'', ''hasOwnProperty'', ''isPrototypeOf'', ''propertyIsEnumerable'',
      ''toLocaleString'', ''toString'', ''valueOf'', ''__proto__'',
      ''__defineGetter__'', ''__defineSetter__'', ''__lookupGetter__'', ''__lookupSetter__'']"

text \<open>Called as \<^verbatim>\<open>PRESETS[name]()\<close>, three of them throw a \<^verbatim>\<open>TypeError\<close>:
  \<^verbatim>\<open>__proto__\<close> is an object and not a function, and \<^verbatim>\<open>__defineGetter__\<close> and
  \<^verbatim>\<open>__defineSetter__\<close> refuse an accessor that is not a function. The others
  return: \<^verbatim>\<open>constructor\<close> an empty object, \<^verbatim>\<open>valueOf\<close> the object
  \<^verbatim>\<open>PRESETS\<close> itself, \<^verbatim>\<open>toString\<close> and \<^verbatim>\<open>toLocaleString\<close> a string,
  \<^verbatim>\<open>hasOwnProperty\<close>, \<^verbatim>\<open>isPrototypeOf\<close> and \<^verbatim>\<open>propertyIsEnumerable\<close>
  \<^verbatim>\<open>false\<close>, \<^verbatim>\<open>__lookupGetter__\<close> and \<^verbatim>\<open>__lookupSetter__\<close>
  \<^verbatim>\<open>undefined\<close>.\<close>

definition Object_prototype_throwing :: "string list" where
  "Object_prototype_throwing = [''__proto__'', ''__defineGetter__'', ''__defineSetter__'']"

text \<open>What \<^verbatim>\<open>rules\<close> holds once one of those values is assigned to it: a value
  with no matrix. \<^verbatim>\<open>rules.matrix\<close> is \<^verbatim>\<open>undefined\<close> (or \<^verbatim>\<open>rules\<close> itself
  is), so every \<^verbatim>\<open>rules.matrix[i][j]\<close> the program reads or writes throws a
  \<^verbatim>\<open>TypeError\<close>. The rule set with the empty matrix, for which each of these reads
  and writes throws as well, stands for it.\<close>

definition no_matrix :: ruleset where
  "no_matrix = \<lparr> matrix = [] \<rparr>"

text \<open>\<^verbatim>\<open>rules = PRESETS[name]()\<close>: nothing checks the name. Calling \<^verbatim>\<open>undefined\<close>
  throws before anything is assigned; an inherited member that returns has its value
  assigned to \<^verbatim>\<open>rules\<close>.\<close>

definition setPreset :: "config \<Rightarrow> random \<Rightarrow> string \<Rightarrow> world \<Rightarrow> js_error + world \<times> random" where
  "setPreset cfg rnd name w =
     (case PRESETS name of
        Some f \<Rightarrow> (case f cfg rnd of (r, rnd') \<Rightarrow> Inr (w\<lparr> rules := r \<rparr>, rnd'))
      | None \<Rightarrow>
          if name \<in> set Object_prototype \<and> name \<notin> set Object_prototype_throwing
          then Inr (w\<lparr> rules := no_matrix \<rparr>, rnd)
          else Inl TypeError)"

definition randomize :: "config \<Rightarrow> random \<Rightarrow> world \<Rightarrow> js_error + world \<times> random" where
  "randomize cfg rnd w =
     bind_err (setPreset cfg rnd ''random'' w) (\<lambda>r. Inr (reset cfg (snd r) (fst r)))"

subsection \<open>The matrix editor\<close>

text \<open>What \<^verbatim>\<open>parseFloat(input.value)\<close> returns for the text of an input.\<close>

datatype parsed = NaN | Num real | PosInfinity | NegInfinity

text \<open>\<^verbatim>\<open>Math.max(-1, Math.min(1, v || 0))\<close>: NaN and zero are falsy and give 0.\<close>

definition clampCell :: "parsed \<Rightarrow> real" where
  "clampCell v =
     (case v of
        NaN \<Rightarrow> max (- 1) (min 1 0)
      | Num r \<Rightarrow> if r = 0 then max (- 1) (min 1 0) else max (- 1) (min 1 r)
      | PosInfinity \<Rightarrow> 1
      | NegInfinity \<Rightarrow> - 1)"

text \<open>\<^verbatim>\<open>m[i][j] = v\<close>: a missing row throws; a column just past the end grows the
  row by one; a column further out would leave holes.\<close>

definition assignCell :: "real list list \<Rightarrow> nat \<Rightarrow> nat \<Rightarrow> real \<Rightarrow> js_error + real list list" where
  "assignCell m i j v =
     (if i < length m
      then (if j < length (m ! i) then Inr (m[i := (m ! i)[j := v]])
            else if j = length (m ! i) then Inr (m[i := (m ! i) @ [v]])
            else Inl Sparse)
      else Inl TypeError)"

text \<open>An input of the editor: its \<^verbatim>\<open>data-i\<close>, its \<^verbatim>\<open>data-j\<close> and its text
  as parsed.\<close>

type_synonym matrix_input = "nat \<times> nat \<times> parsed"

fun applyMatrixFromUI :: "matrix_input list \<Rightarrow> world \<Rightarrow> js_error + world" where
  "applyMatrixFromUI [] w = Inr w"
| "applyMatrixFromUI ((i, j, v) # inputs) w =
     (case assignCell (matrix (rules w)) i j (clampCell v) of
        Inl e \<Rightarrow> Inl e
      | Inr m \<Rightarrow> applyMatrixFromUI inputs (w\<lparr> rules := (rules w)\<lparr> matrix := m \<rparr> \<rparr>))"

text \<open>The inputs \<^verbatim>\<open>buildMatrixUI\<close> writes: one for each cell, row by row, showing
  the entry.\<close>

definition buildMatrixUI :: "config \<Rightarrow> (nat \<Rightarrow> nat \<Rightarrow> parsed) \<Rightarrow> matrix_input list" where
  "buildMatrixUI cfg shown =
     concat (map (\<lambda>i. map (\<lambda>j. (i, j, shown i j)) [0..<numTypes cfg]) [0..<numTypes cfg])"

subsection \<open>Properties of the state, and concrete inputs\<close>

text \<open>A square table of side \<open>n\<close> with every entry in \<open>[-1, 1]\<close>.\<close>

definition square_bounded :: "nat \<Rightarrow> real list list \<Rightarrow> bool" where
  "square_bounded n m =
     (length m = n \<and> list_all (\<lambda>row. length row = n \<and> list_all (\<lambda>v. - 1 \<le> v \<and> v \<le> 1) row) m)"

text \<open>The indices filed under a key of the spatial hash, and the key a particle is
  filed under.\<close>

definition bucket :: "grid \<Rightarrow> int \<times> int \<Rightarrow> nat list" where
  "bucket h key = (case h key of None \<Rightarrow> [] | Some l \<Rightarrow> l)"

definition cellKey :: "particle \<Rightarrow> int \<times> int" where
  "cellKey p = (\<lfloor>pos_x p / cellSize\<rfloor>, \<lfloor>pos_y p / cellSize\<rfloor>)"

definition rnd_zero :: random where
  "rnd_zero = (\<lambda>k. 0)"

definition rnd_half :: random where
  "rnd_half = (\<lambda>k. 1 / 2)"

definition bounce_CONFIG :: config where
  "bounce_CONFIG = CONFIG\<lparr> wrap := False \<rparr>"

text \<open>A canvas of 1000 by 700 with no particle, under the preset \<open>cells\<close>.\<close>

definition empty_world :: world where
  "empty_world =
     \<lparr> particles = [], rules = cells, width = 1000, height = 700, spatialHash = Map.empty \<rparr>"

definition fast_particle :: particle where
  "fast_particle = \<lparr> pos_x = 990, pos_y = 5, vx = 30, vy = - 20, ptype = 0 \<rparr>"

text \<open>Two particles of type 0 that face each other across the horizontal edge of the
  canvas of 1000 by 700: the last row of cells, from 640 to 700, is 60 high.\<close>

definition seam_world :: world where
  "seam_world = empty_world\<lparr> particles := [Particle 100 5 0, Particle 100 630 0] \<rparr>"

text \<open>Two particles of type 0 at distance 50, with \<open>matrix[0][0] = 1\<close>.\<close>

definition scenario_rules :: ruleset where
  "scenario_rules = \<lparr> matrix =
     [[1, 0, 0, 0, 0, 0],
      [0, 1, 0, 0, 0, 0],
      [0, 0, 1, 0, 0, 0],
      [0, 0, 0, 1, 0, 0],
      [0, 0, 0, 0, 1, 0],
      [0, 0, 0, 0, 0, 1]] \<rparr>"

definition scenario_world :: world where
  "scenario_world =
     empty_world\<lparr> particles := [Particle 100 100 0, Particle 150 100 0], rules := scenario_rules \<rparr>"

text \<open>Two particles of types 0 and 1 at distance 5, inside the repulsion zone.\<close>

definition close_world :: world where
  "close_world = empty_world\<lparr> particles := [Particle 100 100 0, Particle 103 104 1] \<rparr>"

section \<open>Properties\<close>

subsection \<open>Helper lemmas\<close>

lemma bind_err_Inr: "bind_err (Inr v) f = f v"
  by (simp add: bind_err_def)


lemma wrapAxis_range:
  assumes "0 \<le> v" and "v < extent" and "\<bar>d\<bar> < extent"
  shows "0 \<le> wrapAxis extent (v + d) \<and> wrapAxis extent (v + d) < extent"
  using assms unfolding wrapAxis_def Let_def by (auto simp: abs_less_iff)

lemma update_wrap_pos:
  assumes "wrap cfg"
  shows "pos_x (update cfg w dt p) = wrapAxis (width w) (pos_x p + vx p * dt * speed cfg)"
    and "pos_y (update cfg w dt p) = wrapAxis (height w) (pos_y p + vy p * dt * speed cfg)"
  using assms by (simp_all add: update_def boundary_def applyFriction_def applyVelocity_def)

lemma update_bounce:
  assumes "\<not> wrap cfg"
  shows "pos_x (update cfg w dt p) =
           fst (bounceAxis (width w) (pos_x p + vx p * dt * speed cfg,
                                      vx p * (1 - friction cfg * dt)))"
    and "vx (update cfg w dt p) =
           snd (bounceAxis (width w) (pos_x p + vx p * dt * speed cfg,
                                      vx p * (1 - friction cfg * dt)))"
    and "pos_y (update cfg w dt p) =
           fst (bounceAxis (height w) (pos_y p + vy p * dt * speed cfg,
                                       vy p * (1 - friction cfg * dt)))"
    and "vy (update cfg w dt p) =
           snd (bounceAxis (height w) (pos_y p + vy p * dt * speed cfg,
                                       vy p * (1 - friction cfg * dt)))"
  using assms
  by (simp_all add: update_def boundary_def applyFriction_def applyVelocity_def Let_def)

lemma pairForce_unfold:
  assumes "separation cfg w p other = (dx, dy)" and "d = sqrt (dx * dx + dy * dy)"
  shows "pairForce cfg w p other =
     (if d < interactionRadius cfg \<and> d > 0
      then bind_err (strengthOf (rules w) (ptype p) (ptype other)) (\<lambda>strength.
           bind_err (forceOf cfg strength d) (\<lambda>force.
           bind_err (divide_js dx d) (\<lambda>ux.
           bind_err (divide_js dy d) (\<lambda>uy.
             Inr (Some (ux * force, uy * force))))))
      else Inr None)"
  unfolding pairForce_def assms Let_def prod.case ..

lemma pairForce_in_range:
  assumes "separation cfg w p other = (dx, dy)" and "d = sqrt (dx * dx + dy * dy)"
    and "0 < d" and "d < interactionRadius cfg"
  shows "pairForce cfg w p other =
     bind_err (strengthOf (rules w) (ptype p) (ptype other)) (\<lambda>strength.
     bind_err (forceOf cfg strength d) (\<lambda>force.
       Inr (Some (dx / d * force, dy / d * force))))"
  using assms(3,4) unfolding pairForce_unfold [OF assms(1,2)]
  by (simp add: divide_js_def bind_err_Inr)

lemma pairForce_skipped:
  assumes "separation cfg w p other = (dx, dy)" and "d = sqrt (dx * dx + dy * dy)"
    and "d = 0 \<or> interactionRadius cfg \<le> d"
  shows "pairForce cfg w p other = Inr None"
  using assms(3) unfolding pairForce_unfold [OF assms(1,2)] by auto

lemma forceOf_repulsion:
  assumes "0 < d" and "d < particleRadius cfg * 4"
  shows "forceOf cfg strength d = Inr ((d / (particleRadius cfg * 4) - 1) * maxForce cfg)"
  using assms by (simp add: forceOf_def Let_def divide_js_def bind_err_Inr)

lemma forceOf_interaction:
  assumes "particleRadius cfg * 4 \<le> d" and "d < interactionRadius cfg"
  shows "forceOf cfg (Some s) d =
     Inr (s * (1 - (d - particleRadius cfg * 4) /
                   (interactionRadius cfg - particleRadius cfg * 4)) * maxForce cfg)"
  using assms by (simp add: forceOf_def Let_def divide_js_def bind_err_Inr)

lemma forceOf_divides:
  assumes "0 < d" and "d < interactionRadius cfg"
  shows "forceOf cfg strength d \<noteq> Inl DivisionByZero"
  using assms
  by (auto simp add: forceOf_def Let_def divide_js_def bind_err_Inr split: option.splits)

lemma separation_rules:
  "separation cfg (w\<lparr> rules := r \<rparr>) p other = separation cfg w p other"
  by (simp add: separation_def Let_def)

lemma sqrt_square_sum:
  assumes "d = sqrt (dx * dx + dy * dy)"
  shows "d * d = dx * dx + dy * dy" and "0 \<le> d"
proof -
  have nonneg: "0 \<le> dx * dx + dy * dy" by simp
  show "0 \<le> d" using assms nonneg by simp
  have "d * d = (sqrt (dx * dx + dy * dy))\<^sup>2" by (simp add: assms power2_eq_square)
  also have "\<dots> = dx * dx + dy * dy" using nonneg by simp
  finally show "d * d = dx * dx + dy * dy" .
qed

lemma unit_norm:
  assumes "d = sqrt (dx * dx + dy * dy)" and "0 < d"
  shows "sqrt ((dx / d * F) * (dx / d * F) + (dy / d * F) * (dy / d * F)) = \<bar>F\<bar>"
proof -
  have "(dx / d * F) * (dx / d * F) + (dy / d * F) * (dy / d * F) =
          (dx * dx + dy * dy) / (d * d) * (F * F)"
    using assms(2) by (simp add: field_simps)
  also have "\<dots> = F * F"
    unfolding sqrt_square_sum(1) [OF assms(1), symmetric] using assms(2) by simp
  finally show ?thesis by simp
qed

lemma unit_projection:
  assumes "d = sqrt (dx * dx + dy * dy)" and "0 < d"
  shows "dx / d * (dx / d * F) + dy / d * (dy / d * F) = F"
proof -
  have "dx / d * (dx / d * F) + dy / d * (dy / d * F) = (dx * dx + dy * dy) / (d * d) * F"
    using assms(2) by (simp add: field_simps)
  also have "\<dots> = F"
    unfolding sqrt_square_sum(1) [OF assms(1), symmetric] using assms(2) by simp
  finally show ?thesis .
qed

subsection \<open>The integrator\<close>

text \<open>
  C2. Under wrap mode, a particle that starts inside \<open>[0, extent)\<close> on both axes and
  moves by less than the extent on each axis in one step is inside \<open>[0, extent)\<close> on
  both axes again after \<^verbatim>\<open>update\<close>: adding or subtracting the extent once is
  enough.
\<close>

theorem wrap_conservation:
  assumes "wrap cfg"
    and "0 \<le> pos_x p" and "pos_x p < width w" and "\<bar>vx p * dt * speed cfg\<bar> < width w"
    and "0 \<le> pos_y p" and "pos_y p < height w" and "\<bar>vy p * dt * speed cfg\<bar> < height w"
  shows "0 \<le> pos_x (update cfg w dt p) \<and> pos_x (update cfg w dt p) < width w \<and>
         0 \<le> pos_y (update cfg w dt p) \<and> pos_y (update cfg w dt p) < height w"
  unfolding update_wrap_pos [OF assms(1)]
  using wrapAxis_range [OF assms(2,3,4)] wrapAxis_range [OF assms(5,6,7)] by simp

theorem wrap_conservation_witness:
  "wrap CONFIG \<and> pos_x fast_particle = 990 \<and> width empty_world = 1000 \<and>
   \<bar>vx fast_particle * 1 * speed CONFIG\<bar> = 30 \<and>
   pos_y fast_particle = 5 \<and> height empty_world = 700 \<and>
   \<bar>vy fast_particle * 1 * speed CONFIG\<bar> = 20 \<and>
   pos_x (update CONFIG empty_world 1 fast_particle) = 20 \<and>
   pos_y (update CONFIG empty_world 1 fast_particle) = 685 \<and>
   0 \<le> pos_x (update CONFIG empty_world 1 fast_particle) \<and>
   pos_x (update CONFIG empty_world 1 fast_particle) < width empty_world \<and>
   0 \<le> pos_y (update CONFIG empty_world 1 fast_particle) \<and>
   pos_y (update CONFIG empty_world 1 fast_particle) < height empty_world"
proof -
  have cfg: "wrap CONFIG" by (simp add: CONFIG_def)
  have x: "0 \<le> pos_x fast_particle" "pos_x fast_particle < width empty_world"
      "\<bar>vx fast_particle * 1 * speed CONFIG\<bar> < width empty_world"
    by (simp_all add: fast_particle_def empty_world_def CONFIG_def)
  have y: "0 \<le> pos_y fast_particle" "pos_y fast_particle < height empty_world"
      "\<bar>vy fast_particle * 1 * speed CONFIG\<bar> < height empty_world"
    by (simp_all add: fast_particle_def empty_world_def CONFIG_def)
  have vals: "pos_x (update CONFIG empty_world 1 fast_particle) = 20"
      "pos_y (update CONFIG empty_world 1 fast_particle) = 685"
    unfolding update_wrap_pos [OF cfg]
    by (simp_all add: wrapAxis_def fast_particle_def empty_world_def CONFIG_def)
  from wrap_conservation [OF cfg x y] vals show ?thesis
    by (simp add: fast_particle_def empty_world_def CONFIG_def)
qed

text \<open>
  C6. One step of a particle with accumulated force \<open>(fx, fy)\<close>: the force is added to
  the velocity, the position moves by the new velocity times \<open>dt\<close> times the speed,
  and only then is the velocity damped by \<open>1 - friction * dt\<close>; the boundary handling
  of \<^verbatim>\<open>update\<close> works on that result.
\<close>

theorem integration_order:
  "applyFriction cfg dt (applyVelocity cfg dt (addForce (fx, fy) p)) =
     p\<lparr> pos_x := pos_x p + (vx p + fx) * dt * speed cfg,
        pos_y := pos_y p + (vy p + fy) * dt * speed cfg,
        vx := (vx p + fx) * (1 - friction cfg * dt),
        vy := (vy p + fy) * (1 - friction cfg * dt) \<rparr>
   \<and> update cfg w dt (addForce (fx, fy) p) =
       boundary cfg w (applyFriction cfg dt (applyVelocity cfg dt (addForce (fx, fy) p)))"
  by (simp add: update_def applyFriction_def applyVelocity_def addForce_def)

text \<open>
  C7. Under bounce mode, an axis whose position after the move is outside
  \<open>[0, extent)\<close> has its velocity component multiplied by \<open>-0.8\<close> and its position
  clamped, \<open>max 0 (min (extent - 1) position)\<close>: to 0 at the low end and, on a canvas
  at least one unit long on that axis, to \<open>extent - 1\<close> at the high end, so that it
  lies in \<open>[0, extent - 1]\<close>. An axis whose position is inside keeps its position and
  its velocity component. The velocity the boundary step sees is the damped one.
\<close>

theorem bounce_boundary:
  assumes "\<not> wrap cfg"
    and "q = applyFriction cfg dt (applyVelocity cfg dt p)"
    and "u = update cfg w dt p"
  shows "(pos_x q < 0 \<or> width w \<le> pos_x q \<longrightarrow>
        vx u = vx q * (- 0.8) \<and> pos_x u = max 0 (min (width w - 1) (pos_x q))) \<and>
     (pos_x q < 0 \<longrightarrow> pos_x u = 0) \<and>
     (width w \<le> pos_x q \<and> 1 \<le> width w \<longrightarrow> pos_x u = width w - 1) \<and>
     ((pos_x q < 0 \<or> width w \<le> pos_x q) \<and> 1 \<le> width w \<longrightarrow>
        0 \<le> pos_x u \<and> pos_x u \<le> width w - 1) \<and>
     (0 \<le> pos_x q \<and> pos_x q < width w \<longrightarrow> vx u = vx q \<and> pos_x u = pos_x q) \<and>
     (pos_y q < 0 \<or> height w \<le> pos_y q \<longrightarrow>
        vy u = vy q * (- 0.8) \<and> pos_y u = max 0 (min (height w - 1) (pos_y q))) \<and>
     (pos_y q < 0 \<longrightarrow> pos_y u = 0) \<and>
     (height w \<le> pos_y q \<and> 1 \<le> height w \<longrightarrow> pos_y u = height w - 1) \<and>
     ((pos_y q < 0 \<or> height w \<le> pos_y q) \<and> 1 \<le> height w \<longrightarrow>
        0 \<le> pos_y u \<and> pos_y u \<le> height w - 1) \<and>
     (0 \<le> pos_y q \<and> pos_y q < height w \<longrightarrow> vy u = vy q \<and> pos_y u = pos_y q)"
proof -
  have q: "pos_x q = pos_x p + vx p * dt * speed cfg" "vx q = vx p * (1 - friction cfg * dt)"
      "pos_y q = pos_y p + vy p * dt * speed cfg" "vy q = vy p * (1 - friction cfg * dt)"
    by (simp_all add: assms(2) applyFriction_def applyVelocity_def)
  have u: "pos_x u = fst (bounceAxis (width w) (pos_x q, vx q))"
      "vx u = snd (bounceAxis (width w) (pos_x q, vx q))"
      "pos_y u = fst (bounceAxis (height w) (pos_y q, vy q))"
      "vy u = snd (bounceAxis (height w) (pos_y q, vy q))"
    unfolding q assms(3) by (rule update_bounce [OF assms(1)])+
  have axis: "(v < 0 \<or> e \<le> v \<longrightarrow>
        snd (bounceAxis e (v, vel)) = vel * (- 0.8) \<and>
        fst (bounceAxis e (v, vel)) = max 0 (min (e - 1) v)) \<and>
     (v < 0 \<longrightarrow> fst (bounceAxis e (v, vel)) = 0) \<and>
     (e \<le> v \<and> 1 \<le> e \<longrightarrow> fst (bounceAxis e (v, vel)) = e - 1) \<and>
     ((v < 0 \<or> e \<le> v) \<and> 1 \<le> e \<longrightarrow>
        0 \<le> fst (bounceAxis e (v, vel)) \<and> fst (bounceAxis e (v, vel)) \<le> e - 1) \<and>
     (0 \<le> v \<and> v < e \<longrightarrow>
        snd (bounceAxis e (v, vel)) = vel \<and> fst (bounceAxis e (v, vel)) = v)"
    for e v vel :: real
    by (simp add: bounceAxis_def)
  from axis [of "pos_x q" "width w" "vx q"] axis [of "pos_y q" "height w" "vy q"]
  show ?thesis unfolding u by blast
qed

theorem bounce_boundary_witness:
  "\<not> wrap bounce_CONFIG \<and> width empty_world = 1000 \<and> height empty_world = 700 \<and>
   pos_x (applyFriction bounce_CONFIG 1 (applyVelocity bounce_CONFIG 1 fast_particle)) = 1020 \<and>
   vx (applyFriction bounce_CONFIG 1 (applyVelocity bounce_CONFIG 1 fast_particle)) = 15 \<and>
   pos_y (applyFriction bounce_CONFIG 1 (applyVelocity bounce_CONFIG 1 fast_particle)) = - 15 \<and>
   vy (applyFriction bounce_CONFIG 1 (applyVelocity bounce_CONFIG 1 fast_particle)) = - 10 \<and>
   pos_x (update bounce_CONFIG empty_world 1 fast_particle) = 999 \<and>
   vx (update bounce_CONFIG empty_world 1 fast_particle) = - 12 \<and>
   pos_y (update bounce_CONFIG empty_world 1 fast_particle) = 0 \<and>
   vy (update bounce_CONFIG empty_world 1 fast_particle) = 8"
proof -
  have cfg: "\<not> wrap bounce_CONFIG" by (simp add: bounce_CONFIG_def)
  have q: "pos_x (applyFriction bounce_CONFIG 1 (applyVelocity bounce_CONFIG 1 fast_particle)) = 1020"
      "vx (applyFriction bounce_CONFIG 1 (applyVelocity bounce_CONFIG 1 fast_particle)) = 15"
      "pos_y (applyFriction bounce_CONFIG 1 (applyVelocity bounce_CONFIG 1 fast_particle)) = - 15"
      "vy (applyFriction bounce_CONFIG 1 (applyVelocity bounce_CONFIG 1 fast_particle)) = - 10"
    by (simp_all add: applyFriction_def applyVelocity_def fast_particle_def bounce_CONFIG_def
        CONFIG_def)
  from bounce_boundary [OF cfg refl refl, of 1 fast_particle empty_world] q show ?thesis
    by (simp add: empty_world_def bounce_CONFIG_def)
qed

text \<open>
  C10. Every particle made by \<^verbatim>\<open>createParticles\<close> (and so by \<^verbatim>\<open>reset\<close>) or
  added by \<^verbatim>\<open>spawnParticles\<close> has velocity \<open>(0, 0)\<close>, the particles that were
  there before a spawn keep theirs, and \<^verbatim>\<open>update\<close> leaves a zero velocity zero:
  only the force added in \<^verbatim>\<open>applyForces\<close> can make it nonzero.
\<close>

theorem created_at_rest:
  "map vx (particles (fst (createParticles cfg rnd count w))) = replicate count 0 \<and>
   map vy (particles (fst (createParticles cfg rnd count w))) = replicate count 0 \<and>
   map vx (particles (fst (reset cfg rnd w))) = replicate (particleCount cfg) 0 \<and>
   map vy (particles (fst (reset cfg rnd w))) = replicate (particleCount cfg) 0 \<and>
   map vx (particles (fst (spawnParticles cfg rnd x y count w))) =
     map vx (particles w) @ replicate count 0 \<and>
   map vy (particles (fst (spawnParticles cfg rnd x y count w))) =
     map vy (particles w) @ replicate count 0 \<and>
   vx (Particle x y t) = 0 \<and> vy (Particle x y t) = 0 \<and>
   vx (update cfg w dt (p\<lparr> vx := 0, vy := 0 \<rparr>)) = 0 \<and>
   vy (update cfg w dt (p\<lparr> vx := 0, vy := 0 \<rparr>)) = 0"
  by (simp add: createParticles_def reset_def spawnParticles_def Particle_def o_def Let_def
      map_replicate_const update_def boundary_def applyFriction_def applyVelocity_def
      bounceAxis_def)

subsection \<open>The force law\<close>

text \<open>
  C3. A pair at distance \<open>d\<close> in the interaction zone,
  \<open>minDist \<le> d < interactionRadius\<close> with \<open>minDist = particleRadius * 4\<close> (a
  positive radius), adds to the force on the particle the unit vector towards the other
  particle times \<open>F = strength * (1 - (d - minDist) / (interactionRadius - minDist)) *
  maxForce\<close>, where \<open>strength\<close> is the entry of the matrix at the type of the
  particle and the type of the other: a vector of length \<open>\<bar>F\<bar>\<close> whose component
  along the direction to the other particle is \<open>F\<close>, so that a positive \<open>F\<close> pulls
  the particle towards the other one. In the scenario of two particles of type 0 at
  distance 50 with \<open>matrix[0][0] = 1\<close>, radius 2.5 and interaction radius 80, \<open>F\<close>
  is \<open>(1 - 40 / 70) * maxForce\<close>.
\<close>

theorem interaction_zone_force:
  assumes "separation cfg w p other = (dx, dy)" and "d = sqrt (dx * dx + dy * dy)"
    and "ptype p < length (matrix (rules w))"
    and "ptype other < length (matrix (rules w) ! ptype p)"
    and "strength = matrix (rules w) ! ptype p ! ptype other"
    and "0 < particleRadius cfg" and "minDist = particleRadius cfg * 4"
    and "minDist \<le> d" and "d < interactionRadius cfg"
    and "F = strength * (1 - (d - minDist) / (interactionRadius cfg - minDist)) * maxForce cfg"
  shows "pairForce cfg w p other = Inr (Some (dx / d * F, dy / d * F)) \<and>
         sqrt ((dx / d * F) * (dx / d * F) + (dy / d * F) * (dy / d * F)) = \<bar>F\<bar> \<and>
         dx / d * (dx / d * F) + dy / d * (dy / d * F) = F"
proof -
  have pos: "0 < d" using assms(6,7,8) by simp
  have s: "strengthOf (rules w) (ptype p) (ptype other) = Inr (Some strength)"
    using assms(3,4,5) by (simp add: strengthOf_def)
  have f: "forceOf cfg (Some strength) d = Inr F"
    using forceOf_interaction [of cfg d strength] assms(7,8,9,10) by simp
  have "pairForce cfg w p other = Inr (Some (dx / d * F, dy / d * F))"
    unfolding pairForce_in_range [OF assms(1,2) pos assms(9)] s bind_err_Inr f ..
  with unit_norm [OF assms(2) pos, of F] unit_projection [OF assms(2) pos, of F]
  show ?thesis by simp
qed

theorem interaction_zone_force_witness:
  "separation CONFIG scenario_world (Particle 100 100 0) (Particle 150 100 0) = (50, 0) \<and>
   matrix (rules scenario_world) ! 0 ! 0 = 1 \<and>
   particleRadius CONFIG * 4 = 10 \<and> interactionRadius CONFIG = 80 \<and>
   pairForce CONFIG scenario_world (Particle 100 100 0) (Particle 150 100 0) =
     Inr (Some (1 * (1 - (50 - 10) / (80 - 10)) * maxForce CONFIG, 0)) \<and>
   \<bar>1 * (1 - (50 - 10) / (80 - 10)) * maxForce CONFIG - 0.4286 * maxForce CONFIG\<bar> < 0.0001 \<and>
   0 < 1 * (1 - (50 - 10) / (80 - 10)) * maxForce CONFIG"
proof -
  have sep: "separation CONFIG scenario_world (Particle 100 100 0) (Particle 150 100 0) = (50, 0)"
    by (simp add: separation_def scenario_world_def empty_world_def Particle_def CONFIG_def
        wrapDelta_def)
  have d: "(50 :: real) = sqrt (50 * 50 + 0 * 0)" by simp
  have row: "ptype (Particle 100 100 0) < length (matrix (rules scenario_world))"
    by (simp add: scenario_world_def scenario_rules_def Particle_def)
  have col: "ptype (Particle 150 100 0) <
      length (matrix (rules scenario_world) ! ptype (Particle 100 100 0))"
    by (simp add: scenario_world_def scenario_rules_def Particle_def)
  have st: "(1 :: real) =
      matrix (rules scenario_world) ! ptype (Particle 100 100 0) ! ptype (Particle 150 100 0)"
    by (simp add: scenario_world_def scenario_rules_def Particle_def)
  have r: "0 < particleRadius CONFIG" "(10 :: real) = particleRadius CONFIG * 4"
      "(10 :: real) \<le> 50" "50 < interactionRadius CONFIG"
    by (simp_all add: CONFIG_def)
  have F: "3 / 7 = (1 :: real) * (1 - (50 - 10) / (interactionRadius CONFIG - 10)) * maxForce CONFIG"
    by (simp add: CONFIG_def)
  from interaction_zone_force [OF sep d row col st r F] sep st
  show ?thesis by (simp add: CONFIG_def Particle_def)
qed

text \<open>
  The scenario through the whole of \<^verbatim>\<open>applyForces\<close> on the canvas of 1000 by 700:
  both particles lie in the cell \<open>(1, 1)\<close>, each is a candidate of the other once, and
  each gains the velocity \<open>3/7\<close> towards the other.
\<close>

lemma scenario_net_force:
  "applyForces CONFIG scenario_world =
     Inr ((buildSpatialHash scenario_world)
        \<lparr> particles := [\<lparr> pos_x = 100, pos_y = 100, vx = 3 / 7, vy = 0, ptype = 0 \<rparr>,
                        \<lparr> pos_x = 150, pos_y = 100, vx = - (3 / 7), vy = 0, ptype = 0 \<rparr>] \<rparr>)"
proof -
  have "sqrt (50 * 50) = (50 :: real)" by (simp del: mult_numeral_left_semiring_numeral)
  then have root: "sqrt 2500 = (50 :: real)" by simp
  define w1 where "w1 = buildSpatialHash scenario_world"
  define w2 where "w2 = w1\<lparr> particles :=
      (particles w1)[0 := addForce (3 / 7, 0) (particles w1 ! 0)] \<rparr>"
  have p1: "particles w1 = [Particle 100 100 0, Particle 150 100 0]"
    by (simp add: w1_def buildSpatialHash_def scenario_world_def)
  have p2: "particles w2 = [\<lparr> pos_x = 100, pos_y = 100, vx = 3 / 7, vy = 0, ptype = 0 \<rparr>,
      Particle 150 100 0]"
    by (simp add: w2_def p1 addForce_def Particle_def)
  have idx: "[0..<length (particles w1)] = [0, Suc 0]"
    by (simp add: p1 upt_rec)
  have env1: "width w1 = 1000" "height w1 = 700" "rules w1 = scenario_rules"
      "spatialHash w1 = [(1, 1) \<mapsto> [0, Suc 0]]"
    by (simp_all add: w1_def buildSpatialHash_def scenario_world_def empty_world_def
        cellSize_def CONFIG_def Particle_def Let_def)
  have env2: "width w2 = 1000" "height w2 = 700" "rules w2 = scenario_rules"
      "spatialHash w2 = [(1, 1) \<mapsto> [0, Suc 0]]"
    by (simp_all add: w2_def env1)
  have near: "getNeighbors CONFIG w' q = [0, Suc 0]"
    if "spatialHash w' = [(1, 1) \<mapsto> [0, Suc 0]]" "width w' = 1000" "height w' = 700"
      "pos_x q = 100 \<or> pos_x q = 150" "pos_y q = 100" for w' q
    using that
    by (auto simp add: getNeighbors_def neighborKey_def foldCell_def cellSize_def CONFIG_def
        Let_def)
  have pull: "pairForce CONFIG w' a b = Inr (Some (3 / 7, 0))"
    if "width w' = 1000" "height w' = 700" "rules w' = scenario_rules"
       "pos_x a = 100" "pos_y a = 100" "ptype a = 0"
       "pos_x b = 150" "pos_y b = 100" "ptype b = 0" for w' a b
    using that
    by (simp add: pairForce_def separation_def wrapDelta_def Let_def CONFIG_def
        root strengthOf_def scenario_rules_def forceOf_def divide_js_def bind_err_Inr)
  have pull_rev: "pairForce CONFIG w' a b = Inr (Some (- (3 / 7), 0))"
    if "width w' = 1000" "height w' = 700" "rules w' = scenario_rules"
       "pos_x a = 150" "pos_y a = 100" "ptype a = 0"
       "pos_x b = 100" "pos_y b = 100" "ptype b = 0" for w' a b
    using that
    by (simp add: pairForce_def separation_def wrapDelta_def Let_def CONFIG_def
        root strengthOf_def scenario_rules_def forceOf_def divide_js_def bind_err_Inr)
  have n1: "getNeighbors CONFIG w1 (particles w1 ! 0) = [0, Suc 0]"
    by (rule near) (simp_all add: env1 p1 Particle_def)
  have n2: "getNeighbors CONFIG w2 (particles w2 ! Suc 0) = [0, Suc 0]"
    by (rule near) (simp_all add: env2 p2 Particle_def)
  have f1: "pairForce CONFIG w1 (particles w1 ! 0) (particles w1 ! Suc 0) = Inr (Some (3 / 7, 0))"
    by (rule pull) (simp_all add: env1 p1 Particle_def)
  have f2: "pairForce CONFIG w2 (particles w2 ! Suc 0) (particles w2 ! 0) =
      Inr (Some (- (3 / 7), 0))"
    by (rule pull_rev) (simp_all add: env2 p2 Particle_def)
  have a1: "accumulate CONFIG w1 0 (particles w1 ! 0) [0, Suc 0] (0, 0) = Inr (3 / 7, 0)"
    by (simp add: f1) (simp add: p1)
  have a2: "accumulate CONFIG w2 (Suc 0) (particles w2 ! Suc 0) [0, Suc 0] (0, 0) =
      Inr (- (3 / 7), 0)"
    by (simp add: f2) (simp add: p2)
  have last: "w2\<lparr> particles := (particles w2)[Suc 0 := addForce (- (3 / 7), 0) (particles w2 ! Suc 0)] \<rparr> =
      w1\<lparr> particles := [\<lparr> pos_x = 100, pos_y = 100, vx = 3 / 7, vy = 0, ptype = 0 \<rparr>,
                        \<lparr> pos_x = 150, pos_y = 100, vx = - (3 / 7), vy = 0, ptype = 0 \<rparr>] \<rparr>"
    by (simp add: p2 addForce_def Particle_def) (simp add: w2_def)
  have "applyForces_loop CONFIG w1 [0, Suc 0] =
     Inr (w1\<lparr> particles := [\<lparr> pos_x = 100, pos_y = 100, vx = 3 / 7, vy = 0, ptype = 0 \<rparr>,
                        \<lparr> pos_x = 150, pos_y = 100, vx = - (3 / 7), vy = 0, ptype = 0 \<rparr>] \<rparr>)"
    unfolding applyForces_loop.simps Let_def n1 a1 sum.case w2_def [symmetric] n2 a2 last ..
  then show ?thesis
    unfolding applyForces_def Let_def w1_def [symmetric] idx .
qed

text \<open>
  C4. A pair at distance \<open>0 < d < minDist\<close>, with \<open>minDist = particleRadius * 4\<close> no
  larger than the interaction radius and a force scale that is not negative, adds the
  unit vector towards the other particle times \<open>F = (d / minDist - 1) * maxForce\<close>,
  and \<open>F \<le> 0\<close>: the particle is pushed away. The entries of the matrix play no part:
  any other rule set that has a row for the type of the particle gives the same.
\<close>

theorem repulsion_zone_force:
  assumes "separation cfg w p other = (dx, dy)" and "d = sqrt (dx * dx + dy * dy)"
    and "ptype p < length (matrix (rules w))" and "ptype p < length (matrix r)"
    and "minDist = particleRadius cfg * 4" and "minDist \<le> interactionRadius cfg"
    and "0 \<le> maxForce cfg"
    and "0 < d" and "d < minDist"
    and "F = (d / minDist - 1) * maxForce cfg"
  shows "pairForce cfg w p other = Inr (Some (dx / d * F, dy / d * F)) \<and>
         F \<le> 0 \<and>
         dx / d * (dx / d * F) + dy / d * (dy / d * F) = F \<and>
         pairForce cfg (w\<lparr> rules := r \<rparr>) p other = pairForce cfg w p other"
proof -
  have inside: "d < interactionRadius cfg" using assms(6,9) by simp
  have f: "forceOf cfg strength d = Inr F" for strength
    using forceOf_repulsion [of d cfg strength] assms(5,8,9,10) by simp
  have any: "pairForce cfg w' p other = Inr (Some (dx / d * F, dy / d * F))"
    if sep: "separation cfg w' p other = (dx, dy)" and row: "ptype p < length (matrix (rules w'))"
    for w'
  proof -
    from row obtain s where s: "strengthOf (rules w') (ptype p) (ptype other) = Inr s"
      by (simp add: strengthOf_def)
    show ?thesis
      unfolding pairForce_in_range [OF sep assms(2,8) inside] s bind_err_Inr f ..
  qed
  have sep': "separation cfg (w\<lparr> rules := r \<rparr>) p other = (dx, dy)"
    using assms(1) by (simp only: separation_rules)
  have "d / minDist < 1" using assms(8,9) by simp
  then have neg: "F \<le> 0"
    unfolding assms(10) using assms(7) by (simp add: mult_nonpos_nonneg)
  from any [OF assms(1,3)] any [OF sep'] assms(4) neg unit_projection [OF assms(2,8), of F]
  show ?thesis by simp
qed

theorem repulsion_zone_force_witness:
  "separation CONFIG close_world (Particle 100 100 0) (Particle 103 104 1) = (3, 4) \<and>
   particleRadius CONFIG * 4 = 10 \<and> interactionRadius CONFIG = 80 \<and> maxForce CONFIG = 1 \<and>
   pairForce CONFIG close_world (Particle 100 100 0) (Particle 103 104 1) =
     Inr (Some (3 / 5 * (- (1 / 2)), 4 / 5 * (- (1 / 2)))) \<and>
   pairForce CONFIG (close_world\<lparr> rules := scenario_rules \<rparr>) (Particle 100 100 0)
       (Particle 103 104 1) =
     Inr (Some (3 / 5 * (- (1 / 2)), 4 / 5 * (- (1 / 2))))"
proof -
  have sep: "separation CONFIG close_world (Particle 100 100 0) (Particle 103 104 1) = (3, 4)"
    by (simp add: separation_def close_world_def empty_world_def Particle_def CONFIG_def
        wrapDelta_def)
  have "sqrt (5 * 5) = (5 :: real)" by (simp del: mult_numeral_left_semiring_numeral)
  then have d: "(5 :: real) = sqrt (3 * 3 + 4 * 4)" by simp
  have row: "ptype (Particle 100 100 0) < length (matrix (rules close_world))"
      "ptype (Particle 100 100 0) < length (matrix scenario_rules)"
    by (simp_all add: close_world_def empty_world_def cells_def scenario_rules_def Particle_def)
  have r: "(10 :: real) = particleRadius CONFIG * 4" "(10 :: real) \<le> interactionRadius CONFIG"
      "0 \<le> maxForce CONFIG" "(0 :: real) < 5" "(5 :: real) < 10"
    by (simp_all add: CONFIG_def)
  have F: "- (1 / 2) = ((5 :: real) / 10 - 1) * maxForce CONFIG"
    by (simp add: CONFIG_def)
  from repulsion_zone_force [OF sep d row r F] sep
  show ?thesis by (simp add: CONFIG_def)
qed

text \<open>
  C5. A pair whose distance is exactly 0, or at least the interaction radius, is skipped
  and adds no force; a pair that adds a force has a strictly positive distance; and no
  division in the force of a pair, the two divisions of the separation vector by the
  distance among them, ever has a zero divisor, whatever the configuration and the
  positions.
\<close>

theorem no_force_out_of_range:
  "(distance cfg w p other = 0 \<or> interactionRadius cfg \<le> distance cfg w p other
      \<longrightarrow> pairForce cfg w p other = Inr None) \<and>
   (pairForce cfg w p other \<noteq> Inr None \<longrightarrow>
      0 < distance cfg w p other \<and> distance cfg w p other < interactionRadius cfg) \<and>
   pairForce cfg w p other \<noteq> Inl DivisionByZero \<and>
   (0 < distance cfg w p other \<and> distance cfg w p other < interactionRadius cfg \<longrightarrow>
      (\<exists>q. divide_js (fst (separation cfg w p other)) (distance cfg w p other) = Inr q) \<and>
      (\<exists>q. divide_js (snd (separation cfg w p other)) (distance cfg w p other) = Inr q))"
proof -
  obtain dx dy where sep: "separation cfg w p other = (dx, dy)"
    by (cases "separation cfg w p other")
  define d where "d = sqrt (dx * dx + dy * dy)"
  have dist: "distance cfg w p other = d"
    by (simp add: distance_def sep d_def)
  have skipped: "pairForce cfg w p other = Inr None" if "d = 0 \<or> interactionRadius cfg \<le> d"
    using pairForce_skipped [OF sep d_def that] .
  have nodiv: "pairForce cfg w p other \<noteq> Inl DivisionByZero"
  proof (cases "0 < d \<and> d < interactionRadius cfg")
    case True
    then have pos: "0 < d" and lt: "d < interactionRadius cfg" by simp_all
    show ?thesis
      unfolding pairForce_in_range [OF sep d_def pos lt]
      using forceOf_divides [OF pos lt]
      by (auto simp add: bind_err_def strengthOf_def split: sum.splits)
  next
    case False
    have "0 \<le> d" using sqrt_square_sum(2) [OF d_def] .
    with False have "d = 0 \<or> interactionRadius cfg \<le> d" by auto
    from skipped [OF this] show ?thesis by simp
  qed
  have nonneg: "0 \<le> d" using sqrt_square_sum(2) [OF d_def] .
  have range: "0 < d \<and> d < interactionRadius cfg" if "pairForce cfg w p other \<noteq> Inr None"
    using that skipped nonneg by force
  show ?thesis
    unfolding dist using skipped range nodiv by (auto simp add: divide_js_def)
qed

theorem no_force_out_of_range_witness:
  "distance CONFIG empty_world (Particle 100 100 0) (Particle 100 100 1) = 0 \<and>
   pairForce CONFIG empty_world (Particle 100 100 0) (Particle 100 100 1) = Inr None \<and>
   distance CONFIG empty_world (Particle 100 100 0) (Particle 180 100 1) = 80 \<and>
   pairForce CONFIG empty_world (Particle 100 100 0) (Particle 180 100 1) = Inr None \<and>
   distance CONFIG close_world (Particle 100 100 0) (Particle 103 104 1) = 5 \<and>
   pairForce CONFIG close_world (Particle 100 100 0) (Particle 103 104 1) \<noteq> Inr None \<and>
   divide_js (fst (separation CONFIG close_world (Particle 100 100 0) (Particle 103 104 1)))
     (distance CONFIG close_world (Particle 100 100 0) (Particle 103 104 1)) = Inr (3 / 5)"
proof -
  have d0: "distance CONFIG empty_world (Particle 100 100 0) (Particle 100 100 1) = 0"
    by (simp add: distance_def separation_def empty_world_def Particle_def CONFIG_def
        wrapDelta_def)
  have "sqrt (80 * 80) = (80 :: real)" by (simp del: mult_numeral_left_semiring_numeral)
  then have d80: "distance CONFIG empty_world (Particle 100 100 0) (Particle 180 100 1) = 80"
    by (simp add: distance_def separation_def empty_world_def Particle_def CONFIG_def
        wrapDelta_def)
  have "sqrt (5 * 5) = (5 :: real)" by (simp del: mult_numeral_left_semiring_numeral)
  then have d5: "distance CONFIG close_world (Particle 100 100 0) (Particle 103 104 1) = 5"
    by (simp add: distance_def separation_def close_world_def empty_world_def Particle_def
        CONFIG_def wrapDelta_def)
  have sep: "separation CONFIG close_world (Particle 100 100 0) (Particle 103 104 1) = (3, 4)"
    by (simp add: separation_def close_world_def empty_world_def Particle_def CONFIG_def
        wrapDelta_def)
  have d: "(5 :: real) = sqrt (3 * 3 + 4 * 4)" using \<open>sqrt (5 * 5) = (5 :: real)\<close> by simp
  have "pairForce CONFIG close_world (Particle 100 100 0) (Particle 103 104 1) =
      bind_err (strengthOf (rules close_world) (ptype (Particle 100 100 0))
                  (ptype (Particle 103 104 1))) (\<lambda>strength.
      bind_err (forceOf CONFIG strength 5) (\<lambda>force.
        Inr (Some (3 / 5 * force, 4 / 5 * force))))"
    by (rule pairForce_in_range [OF sep d]) (simp_all add: CONFIG_def)
  then have near:
    "pairForce CONFIG close_world (Particle 100 100 0) (Particle 103 104 1) \<noteq> Inr None"
    by (simp add: strengthOf_def forceOf_def divide_js_def bind_err_Inr close_world_def
        empty_world_def cells_def Particle_def CONFIG_def)
  from no_force_out_of_range [of CONFIG empty_world "Particle 100 100 0" "Particle 100 100 1"]
    no_force_out_of_range [of CONFIG empty_world "Particle 100 100 0" "Particle 180 100 1"]
    no_force_out_of_range [of CONFIG close_world "Particle 100 100 0" "Particle 103 104 1"]
    d0 d80 d5 sep near
  show ?thesis by (simp add: CONFIG_def divide_js_def)
qed

subsection \<open>The interaction matrix\<close>

lemma clampCell_range: "- 1 \<le> clampCell v \<and> clampCell v \<le> 1"
  by (cases v) (auto simp add: clampCell_def)

lemma square_bounded_update:
  assumes "square_bounded n m" and "i < n" and "j < n" and "- 1 \<le> v" and "v \<le> 1"
  shows "square_bounded n (m[i := (m ! i)[j := v]])"
proof -
  from assms(1) have len: "length m = n"
    and rows: "\<forall>row \<in> set m. length row = n \<and> (\<forall>x \<in> set row. - 1 \<le> x \<and> x \<le> 1)"
    by (simp_all add: square_bounded_def list_all_iff)
  have "m ! i \<in> set m" using len assms(2) by simp
  with rows have row: "length (m ! i) = n" "\<forall>x \<in> set (m ! i). - 1 \<le> x \<and> x \<le> 1"
    by simp_all
  have "set ((m ! i)[j := v]) \<subseteq> insert v (set (m ! i))"
    by (rule set_update_subset_insert)
  with row(2) assms(4,5) have new: "\<forall>x \<in> set ((m ! i)[j := v]). - 1 \<le> x \<and> x \<le> 1"
    by auto
  have "set (m[i := (m ! i)[j := v]]) \<subseteq> insert ((m ! i)[j := v]) (set m)"
    by (rule set_update_subset_insert)
  with rows new row(1)
  have "\<forall>r \<in> set (m[i := (m ! i)[j := v]]). length r = n \<and> (\<forall>x \<in> set r. - 1 \<le> x \<and> x \<le> 1)"
    by auto
  with len show ?thesis by (simp add: square_bounded_def list_all_iff)
qed

lemma assignCell_in_range:
  assumes "square_bounded n m" and "i < n" and "j < n"
  shows "assignCell m i j v = Inr (m[i := (m ! i)[j := v]])"
proof -
  from assms(1) have len: "length m = n" and rows: "\<forall>row \<in> set m. length row = n"
    by (simp_all add: square_bounded_def list_all_iff)
  have "m ! i \<in> set m" using len assms(2) by simp
  with rows have "length (m ! i) = n" by simp
  with len assms(2,3) show ?thesis by (simp add: assignCell_def)
qed

lemma applyMatrixFromUI_bounded:
  assumes "\<forall>e \<in> set inputs. fst e < n \<and> fst (snd e) < n"
    and "square_bounded n (matrix (rules w))"
  shows "\<exists>w'. applyMatrixFromUI inputs w = Inr w' \<and> square_bounded n (matrix (rules w'))"
  using assms
proof (induction inputs arbitrary: w)
  case Nil
  then show ?case by simp
next
  case (Cons e inputs)
  obtain i j v where e: "e = (i, j, v)" by (cases e)
  from Cons.prems(1) e have ij: "i < n" "j < n" by simp_all
  let ?m = "(matrix (rules w))[i := (matrix (rules w) ! i)[j := clampCell v]]"
  have a: "assignCell (matrix (rules w)) i j (clampCell v) = Inr ?m"
    by (rule assignCell_in_range [OF Cons.prems(2) ij])
  have b: "square_bounded n ?m"
    using square_bounded_update [OF Cons.prems(2) ij] clampCell_range [of v] by simp
  have "\<exists>w'. applyMatrixFromUI inputs (w\<lparr> rules := (rules w)\<lparr> matrix := ?m \<rparr> \<rparr>) = Inr w' \<and>
      square_bounded n (matrix (rules w'))"
    using Cons.prems(1) b by (intro Cons.IH) simp_all
  then show ?case by (simp add: e a)
qed

lemma buildMatrixUI_indices:
  "\<forall>e \<in> set (buildMatrixUI cfg shown). fst e < numTypes cfg \<and> fst (snd e) < numTypes cfg"
  by (auto simp add: buildMatrixUI_def)

lemma generateRandomRules_bounded:
  assumes "random_ok rnd"
  shows "square_bounded (numTypes cfg) (matrix (fst (generateRandomRules cfg rnd)))"
proof -
  have "- 1 \<le> rnd k * 2 - 1 \<and> rnd k * 2 - 1 \<le> 1" for k
    using assms [unfolded random_ok_def, rule_format, of k] by simp
  then show ?thesis
    by (simp add: generateRandomRules_def Let_def square_bounded_def list_all_iff)
qed

lemma presets_bounded:
  "square_bounded 6 (matrix cells)" "square_bounded 6 (matrix swarm)"
  "square_bounded 6 (matrix predator)" "square_bounded 6 (matrix symbiosis)"
  "square_bounded 6 (matrix chains)"
  by (simp_all add: square_bounded_def cells_def swarm_def predator_def symbiosis_def
      chains_def)

text \<open>
  Where the matrix is kept a square table of side 6 with entries in \<open>[-1, 1]\<close>: the
  random generation, whose entries are \<open>2 * draw - 1\<close>; the six keys of
  \<^verbatim>\<open>PRESETS\<close>; and the matrix editor, which stores in each cell exactly
  \<open>max (-1) (min 1 v)\<close> of the value \<open>v\<close> typed there (0 when it is not a number).
\<close>

lemma clampCell_values:
  "clampCell NaN = 0" "clampCell (Num r) = max (- 1) (min 1 r)"
  "clampCell PosInfinity = 1" "clampCell NegInfinity = - 1"
  by (simp_all add: clampCell_def)

lemma clampCell_five: "clampCell (Num 5) = 1" "clampCell (Num (- 5)) = - 1"
  by (simp_all add: clampCell_def)

lemma generateRandomRules_entry:
  assumes "i < numTypes cfg" and "j < numTypes cfg"
  shows "matrix (fst (generateRandomRules cfg rnd)) ! i ! j = rnd (i * numTypes cfg + j) * 2 - 1"
  using assms by (simp add: generateRandomRules_def Let_def)

lemma setPreset_known:
  assumes "name \<in> set preset_names" and "random_ok rnd" and "numTypes cfg = 6"
  shows "\<exists>r rnd'. setPreset cfg rnd name w = Inr (w\<lparr> rules := r \<rparr>, rnd') \<and>
           square_bounded 6 (matrix r)"
proof -
  have random: "setPreset cfg rnd ''random'' w =
      Inr (w\<lparr> rules := fst (generateRandomRules cfg rnd) \<rparr>, snd (generateRandomRules cfg rnd))"
    by (simp add: setPreset_def PRESETS_def split: prod.splits)
  have fixed: "setPreset cfg rnd ''cells'' w = Inr (w\<lparr> rules := cells \<rparr>, rnd)"
      "setPreset cfg rnd ''swarm'' w = Inr (w\<lparr> rules := swarm \<rparr>, rnd)"
      "setPreset cfg rnd ''predator'' w = Inr (w\<lparr> rules := predator \<rparr>, rnd)"
      "setPreset cfg rnd ''symbiosis'' w = Inr (w\<lparr> rules := symbiosis \<rparr>, rnd)"
      "setPreset cfg rnd ''chains'' w = Inr (w\<lparr> rules := chains \<rparr>, rnd)"
    by (simp_all add: setPreset_def PRESETS_def)
  have names: "name = ''random'' \<or> name = ''cells'' \<or> name = ''swarm'' \<or>
      name = ''predator'' \<or> name = ''symbiosis'' \<or> name = ''chains''"
    using assms(1) by (simp add: preset_names_def)
  have known: "\<exists>r' rnd'. Inr (w\<lparr> rules := r \<rparr>, rnd1) = Inr (w\<lparr> rules := r' \<rparr>, rnd' :: random) \<and>
      square_bounded 6 (matrix r')"
    if "square_bounded 6 (matrix r)" for r rnd1
    using that by blast
  from names show ?thesis
  proof (elim disjE)
    assume n: "name = ''random''"
    show ?thesis unfolding n random
      using generateRandomRules_bounded [OF assms(2), of cfg] assms(3) by (intro known) simp
  next
    assume n: "name = ''cells''"
    show ?thesis unfolding n fixed by (rule known [OF presets_bounded(1)])
  next
    assume n: "name = ''swarm''"
    show ?thesis unfolding n fixed by (rule known [OF presets_bounded(2)])
  next
    assume n: "name = ''predator''"
    show ?thesis unfolding n fixed by (rule known [OF presets_bounded(3)])
  next
    assume n: "name = ''symbiosis''"
    show ?thesis unfolding n fixed by (rule known [OF presets_bounded(4)])
  next
    assume n: "name = ''chains''"
    show ?thesis unfolding n fixed by (rule known [OF presets_bounded(5)])
  qed
qed

lemma applyMatrixFromUI_single:
  assumes "i < length (matrix (rules w))" and "j < length (matrix (rules w) ! i)"
  shows "applyMatrixFromUI [(i, j, v)] w =
     Inr (w\<lparr> rules := (rules w)\<lparr> matrix :=
           (matrix (rules w))[i := (matrix (rules w) ! i)[j := clampCell v]] \<rparr> \<rparr>)"
  using assms by (simp add: assignCell_def)

lemma square_bounded_rows:
  assumes "square_bounded n m" and "i < n"
  shows "length m = n" and "length (m ! i) = n"
proof -
  from assms(1) show len: "length m = n" by (simp add: square_bounded_def)
  from assms(1) have "\<forall>row \<in> set m. length row = n"
    by (simp add: square_bounded_def list_all_iff)
  moreover have "m ! i \<in> set m" using len assms(2) by simp
  ultimately show "length (m ! i) = n" by simp
qed

lemma applyMatrixFromUI_cells:
  assumes "\<forall>e \<in> set inputs. fst e < n \<and> fst (snd e) < n"
    and "square_bounded n (matrix (rules w))"
    and "distinct (map (\<lambda>e. (fst e, fst (snd e))) inputs)"
  shows "\<exists>m'. applyMatrixFromUI inputs w = Inr (w\<lparr> rules := (rules w)\<lparr> matrix := m' \<rparr> \<rparr>) \<and>
      square_bounded n m' \<and>
      (\<forall>i j v. (i, j, v) \<in> set inputs \<longrightarrow> m' ! i ! j = clampCell v) \<and>
      (\<forall>i j. i < n \<longrightarrow> j < n \<longrightarrow> (i, j) \<notin> (\<lambda>e. (fst e, fst (snd e))) ` set inputs \<longrightarrow>
         m' ! i ! j = matrix (rules w) ! i ! j)"
  using assms
proof (induction inputs arbitrary: w)
  case Nil
  have "w\<lparr> rules := (rules w)\<lparr> matrix := matrix (rules w) \<rparr> \<rparr> = w" by simp
  with Nil.prems(2) show ?case by (intro exI [of _ "matrix (rules w)"]) simp
next
  case (Cons e inputs)
  obtain i0 j0 v0 where e: "e = (i0, j0, v0)" by (cases e)
  let ?m = "matrix (rules w)"
  let ?m1 = "?m[i0 := (?m ! i0)[j0 := clampCell v0]]"
  let ?w1 = "w\<lparr> rules := (rules w)\<lparr> matrix := ?m1 \<rparr> \<rparr>"
  from Cons.prems(1) e have ij0: "i0 < n" "j0 < n" by simp_all
  have a: "assignCell ?m i0 j0 (clampCell v0) = Inr ?m1"
    by (rule assignCell_in_range [OF Cons.prems(2) ij0])
  have b: "square_bounded n ?m1"
    using square_bounded_update [OF Cons.prems(2) ij0] clampCell_range [of v0] by simp
  have fresh: "(i0, j0) \<notin> (\<lambda>e. (fst e, fst (snd e))) ` set inputs"
    and dist: "distinct (map (\<lambda>e. (fst e, fst (snd e))) inputs)"
    using Cons.prems(3) e by simp_all
  have "\<exists>m'. applyMatrixFromUI inputs ?w1 =
        Inr (?w1\<lparr> rules := (rules ?w1)\<lparr> matrix := m' \<rparr> \<rparr>) \<and>
      square_bounded n m' \<and>
      (\<forall>i j v. (i, j, v) \<in> set inputs \<longrightarrow> m' ! i ! j = clampCell v) \<and>
      (\<forall>i j. i < n \<longrightarrow> j < n \<longrightarrow> (i, j) \<notin> (\<lambda>e. (fst e, fst (snd e))) ` set inputs \<longrightarrow>
         m' ! i ! j = matrix (rules ?w1) ! i ! j)"
    using Cons.prems(1) b dist by (intro Cons.IH) simp_all
  then obtain m' where run: "applyMatrixFromUI inputs ?w1 =
        Inr (?w1\<lparr> rules := (rules ?w1)\<lparr> matrix := m' \<rparr> \<rparr>)"
    and sq: "square_bounded n m'"
    and new: "\<And>i j v. (i, j, v) \<in> set inputs \<Longrightarrow> m' ! i ! j = clampCell v"
    and old: "\<And>i j. i < n \<Longrightarrow> j < n \<Longrightarrow>
        (i, j) \<notin> (\<lambda>e. (fst e, fst (snd e))) ` set inputs \<Longrightarrow> m' ! i ! j = ?m1 ! i ! j"
    by auto
  have len: "length ?m = n" "length (?m ! i0) = n"
    using square_bounded_rows [OF Cons.prems(2) ij0(1)] .
  have cell: "?m1 ! i ! j = (if i = i0 \<and> j = j0 then clampCell v0 else ?m ! i ! j)"
    if "i < n" "j < n" for i j
    using that len ij0 by (auto simp add: nth_list_update)
  have res: "applyMatrixFromUI (e # inputs) w = Inr (w\<lparr> rules := (rules w)\<lparr> matrix := m' \<rparr> \<rparr>)"
    using run by (simp add: e a)
  have stored: "m' ! i ! j = clampCell v" if "(i, j, v) \<in> set (e # inputs)" for i j v
  proof (cases "(i, j, v) \<in> set inputs")
    case True
    then show ?thesis by (rule new)
  next
    case False
    with that e have eq: "i = i0" "j = j0" "v = v0" by simp_all
    from old [OF ij0 fresh] cell [OF ij0] show ?thesis unfolding eq by simp
  qed
  have kept: "m' ! i ! j = ?m ! i ! j"
    if "i < n" "j < n" "(i, j) \<notin> (\<lambda>e. (fst e, fst (snd e))) ` set (e # inputs)" for i j
  proof -
    from that(3) e have ne: "(i, j) \<noteq> (i0, j0)"
      and out: "(i, j) \<notin> (\<lambda>e. (fst e, fst (snd e))) ` set inputs"
      by simp_all
    from old [OF that(1,2) out] cell [OF that(1,2)] ne show ?thesis by auto
  qed
  from res sq stored kept show ?case by blast
qed

lemma buildMatrixUI_keys:
  "map (\<lambda>e. (fst e, fst (snd e))) (buildMatrixUI cfg shown) =
     List.product [0..<numTypes cfg] [0..<numTypes cfg]"
  by (simp add: buildMatrixUI_def product_concat_map map_concat o_def)

lemma applyMatrixFromUI_stores:
  assumes "square_bounded (numTypes cfg) (matrix (rules w))"
  shows "applyMatrixFromUI (buildMatrixUI cfg shown) w =
     Inr (w\<lparr> rules := (rules w)\<lparr> matrix :=
           map (\<lambda>i. map (\<lambda>j. clampCell (shown i j)) [0..<numTypes cfg])
               [0..<numTypes cfg] \<rparr> \<rparr>)"
proof -
  let ?n = "numTypes cfg"
  have "distinct (map (\<lambda>e. (fst e, fst (snd e))) (buildMatrixUI cfg shown))"
    unfolding buildMatrixUI_keys by (simp add: distinct_product)
  from applyMatrixFromUI_cells [OF buildMatrixUI_indices assms this]
  obtain m' where run: "applyMatrixFromUI (buildMatrixUI cfg shown) w =
        Inr (w\<lparr> rules := (rules w)\<lparr> matrix := m' \<rparr> \<rparr>)"
    and sq: "square_bounded ?n m'"
    and new: "\<And>i j v. (i, j, v) \<in> set (buildMatrixUI cfg shown) \<Longrightarrow> m' ! i ! j = clampCell v"
    by blast
  have cell: "m' ! i ! j = clampCell (shown i j)" if "i < ?n" "j < ?n" for i j
  proof -
    have "(i, j, shown i j) \<in> set (buildMatrixUI cfg shown)"
      using that by (force simp add: buildMatrixUI_def)
    then show ?thesis by (rule new)
  qed
  have row: "m' ! i = map (\<lambda>j. clampCell (shown i j)) [0..<?n]" if "i < ?n" for i
    using square_bounded_rows(2) [OF sq that] cell [OF that]
    by (intro nth_equalityI) simp_all
  have len: "length m' = ?n" using sq by (simp add: square_bounded_def)
  have "m' = map (\<lambda>i. map (\<lambda>j. clampCell (shown i j)) [0..<?n]) [0..<?n]"
  proof (rule nth_equalityI)
    show "length m' = length (map (\<lambda>i. map (\<lambda>j. clampCell (shown i j)) [0..<?n]) [0..<?n])"
      using len by simp
  next
    fix i assume "i < length m'"
    then have "i < ?n" using len by simp
    then show "m' ! i = map (\<lambda>i. map (\<lambda>j. clampCell (shown i j)) [0..<?n]) [0..<?n] ! i"
      using row by simp
  qed
  with run show ?thesis by simp
qed

lemma editor_stores_clamped:
  "applyMatrixFromUI [(0, 0, Num 5), (1, 2, Num (- 5)), (3, 3, Num (1 / 4)), (4, 0, NaN)]
      empty_world =
     Inr (empty_world\<lparr> rules := \<lparr> matrix =
       [[ 1,   -0.2, -0.2, -0.2, -0.2, -0.2],
        [-0.2,  0.8, -1,   -0.2, -0.2, -0.2],
        [-0.2, -0.2,  0.8, -0.2, -0.2, -0.2],
        [-0.2, -0.2, -0.2,  1 / 4, -0.2, -0.2],
        [ 0,   -0.2, -0.2, -0.2,  0.8, -0.2],
        [-0.2, -0.2, -0.2, -0.2, -0.2,  0.8]] \<rparr> \<rparr>)"
  by (simp add: assignCell_def clampCell_def empty_world_def cells_def)


text \<open>
  C9, as the program has it. \<^verbatim>\<open>setPreset\<close> checks nothing: a name that is neither
  a key of \<^verbatim>\<open>PRESETS\<close> nor a member of \<^verbatim>\<open>Object.prototype\<close> makes the call of
  \<^verbatim>\<open>undefined\<close> throw a \<^verbatim>\<open>TypeError\<close> before \<^verbatim>\<open>rules\<close> is assigned; each
  of \<^verbatim>\<open>cells\<close>, \<^verbatim>\<open>swarm\<close>, \<^verbatim>\<open>predator\<close>, \<^verbatim>\<open>symbiosis\<close> and
  \<^verbatim>\<open>chains\<close> stores its literal matrix and draws no random number; the key
  \<^verbatim>\<open>random\<close> stores a freshly generated random matrix.
\<close>

theorem setPreset_outcomes:
  "(name \<notin> set preset_names \<and> name \<notin> set Object_prototype \<longrightarrow>
      setPreset cfg rnd name w = Inl TypeError) \<and>
   setPreset cfg rnd ''cells'' w = Inr (w\<lparr> rules := cells \<rparr>, rnd) \<and>
   setPreset cfg rnd ''swarm'' w = Inr (w\<lparr> rules := swarm \<rparr>, rnd) \<and>
   setPreset cfg rnd ''predator'' w = Inr (w\<lparr> rules := predator \<rparr>, rnd) \<and>
   setPreset cfg rnd ''symbiosis'' w = Inr (w\<lparr> rules := symbiosis \<rparr>, rnd) \<and>
   setPreset cfg rnd ''chains'' w = Inr (w\<lparr> rules := chains \<rparr>, rnd) \<and>
   setPreset cfg rnd ''random'' w =
     Inr (w\<lparr> rules := fst (generateRandomRules cfg rnd) \<rparr>, snd (generateRandomRules cfg rnd))"
  by (simp add: setPreset_def PRESETS_def preset_names_def split: prod.splits)

theorem setPreset_outcomes_witness:
  "''blobs'' \<notin> set preset_names \<and> ''blobs'' \<notin> set Object_prototype \<and>
   setPreset CONFIG rnd_zero ''blobs'' empty_world = Inl TypeError"
proof -
  have unknown: "''blobs'' \<notin> set preset_names" "''blobs'' \<notin> set Object_prototype"
    by (simp_all add: preset_names_def Object_prototype_def)
  from setPreset_outcomes [of "''blobs''" CONFIG rnd_zero empty_world] unknown
  show ?thesis by simp
qed

text \<open>
  The claim C9 as it is written fails at the key \<^verbatim>\<open>random\<close> of \<^verbatim>\<open>PRESETS\<close>:
  selecting it succeeds, and what it stores is not a fixed matrix (every entry is
  \<open>-1\<close> when all draws are 0, and 0 when all draws are one half). And the failure
  for a name such as \<^verbatim>\<open>blobs\<close> is the \<^verbatim>\<open>TypeError\<close> of the engine.
\<close>

theorem setPreset_random_not_constant:
  "''random'' \<in> set preset_names \<and>
   setPreset CONFIG rnd_zero ''random'' empty_world =
     Inr (empty_world\<lparr> rules := \<lparr> matrix = replicate 6 (replicate 6 (- 1)) \<rparr> \<rparr>, rnd_zero) \<and>
   setPreset CONFIG rnd_half ''random'' empty_world =
     Inr (empty_world\<lparr> rules := \<lparr> matrix = replicate 6 (replicate 6 0) \<rparr> \<rparr>, rnd_half) \<and>
   setPreset CONFIG rnd_zero ''random'' empty_world \<noteq>
     setPreset CONFIG rnd_half ''random'' empty_world \<and>
   setPreset CONFIG rnd_zero ''blobs'' empty_world = Inl TypeError"
proof -
  have six: "[0..<6] = [0, 1, 2, 3, 4, 5]" by (simp add: upt_rec)
  have rep: "replicate 6 x = [x, x, x, x, x, x]" for x :: 'a
    by (simp add: numeral_eq_Suc)
  have zero: "generateRandomRules CONFIG rnd_zero =
      (\<lparr> matrix = replicate 6 (replicate 6 (- 1)) \<rparr>, rnd_zero)"
    by (simp add: generateRandomRules_def numTypes_def CONFIG_def rnd_zero_def advance_def
        six rep)
  have half: "generateRandomRules CONFIG rnd_half =
      (\<lparr> matrix = replicate 6 (replicate 6 0) \<rparr>, rnd_half)"
    by (simp add: generateRandomRules_def numTypes_def CONFIG_def rnd_half_def advance_def
        six rep)
  have a: "setPreset CONFIG rnd_zero ''random'' empty_world =
     Inr (empty_world\<lparr> rules := \<lparr> matrix = replicate 6 (replicate 6 (- 1)) \<rparr> \<rparr>, rnd_zero)"
    by (simp add: setPreset_def PRESETS_def zero)
  have b: "setPreset CONFIG rnd_half ''random'' empty_world =
     Inr (empty_world\<lparr> rules := \<lparr> matrix = replicate 6 (replicate 6 0) \<rparr> \<rparr>, rnd_half)"
    by (simp add: setPreset_def PRESETS_def half)
  have "replicate 6 (replicate 6 (- 1 :: real)) \<noteq> replicate 6 (replicate 6 0)"
    by (simp add: rep)
  then have c: "setPreset CONFIG rnd_zero ''random'' empty_world \<noteq>
     setPreset CONFIG rnd_half ''random'' empty_world"
    unfolding a b by (simp add: empty_world_def)
  have e: "setPreset CONFIG rnd_zero ''blobs'' empty_world = Inl TypeError"
    by (simp add: setPreset_def PRESETS_def Object_prototype_def)
  from a b c e show ?thesis by (simp add: preset_names_def)
qed

subsection \<open>The neighbour query\<close>

text \<open>
  C1 at the edge of a canvas whose height is not a multiple of the cell size. On the
  canvas of 1000 by 700 under wrap mode, the particles at \<open>(100, 5)\<close> and
  \<open>(100, 630)\<close> are 75 apart across the edge, less than the interaction radius 80,
  and the pair would add the force \<open>(0, -2/35)\<close> to the first. The first lies in the
  row of cells 0 and the second in row 7, while the query of the first reads rows 8, 0
  and 1: neither particle is among the candidates of the other, and \<^verbatim>\<open>applyForces\<close>
  leaves both at rest.
\<close>

theorem neighbors_missed_at_seam:
  "wrap CONFIG \<and>
   distance CONFIG seam_world (particles seam_world ! 0) (particles seam_world ! 1) = 75 \<and>
   interactionRadius CONFIG = 80 \<and>
   pairForce CONFIG seam_world (particles seam_world ! 0) (particles seam_world ! 1) =
     Inr (Some (0, - (2 / 35))) \<and>
   getNeighbors CONFIG (buildSpatialHash seam_world) (particles seam_world ! 0) = [0] \<and>
   getNeighbors CONFIG (buildSpatialHash seam_world) (particles seam_world ! 1) = [1] \<and>
   1 \<notin> set (getNeighbors CONFIG (buildSpatialHash seam_world) (particles seam_world ! 0)) \<and>
   applyForces CONFIG seam_world = Inr (buildSpatialHash seam_world)"
proof -
  have sep: "separation CONFIG seam_world (particles seam_world ! 0) (particles seam_world ! 1) =
      (0, - 75)"
    by (simp add: separation_def seam_world_def empty_world_def Particle_def CONFIG_def
        wrapDelta_def)
  have "sqrt (75 * 75) = (75 :: real)" by (simp del: mult_numeral_left_semiring_numeral)
  then have d: "(75 :: real) = sqrt (0 * 0 + (- 75) * (- 75))" by simp
  have dist: "distance CONFIG seam_world (particles seam_world ! 0) (particles seam_world ! 1) = 75"
    unfolding distance_def sep using d by simp
  have "pairForce CONFIG seam_world (particles seam_world ! 0) (particles seam_world ! 1) =
      bind_err (strengthOf (rules seam_world) (ptype (particles seam_world ! 0))
                  (ptype (particles seam_world ! 1))) (\<lambda>strength.
      bind_err (forceOf CONFIG strength 75) (\<lambda>force.
        Inr (Some (0 / 75 * force, - 75 / 75 * force))))"
    by (rule pairForce_in_range [OF sep d]) (simp_all add: CONFIG_def)
  then have force:
    "pairForce CONFIG seam_world (particles seam_world ! 0) (particles seam_world ! 1) =
       Inr (Some (0, - (2 / 35)))"
    by (simp add: strengthOf_def forceOf_def divide_js_def bind_err_Inr seam_world_def
        empty_world_def cells_def Particle_def CONFIG_def)
  have n0: "getNeighbors CONFIG (buildSpatialHash seam_world) (particles seam_world ! 0) = [0]"
    by (simp add: getNeighbors_def buildSpatialHash_def seam_world_def empty_world_def
        Particle_def cellSize_def CONFIG_def neighborKey_def foldCell_def Let_def)
  have n1: "getNeighbors CONFIG (buildSpatialHash seam_world) (particles seam_world ! 1) = [1]"
    by (simp add: getNeighbors_def buildSpatialHash_def seam_world_def empty_world_def
        Particle_def cellSize_def CONFIG_def neighborKey_def foldCell_def Let_def)
  define w1 where "w1 = buildSpatialHash seam_world"
  have p: "particles w1 = particles seam_world"
    by (simp add: w1_def buildSpatialHash_def)
  have idx: "[0..<length (particles w1)] = [0, Suc 0]"
    by (simp add: p seam_world_def upt_rec)
  have c0: "getNeighbors CONFIG w1 (particles w1 ! 0) = [0]"
    using n0 by (simp add: w1_def p [unfolded w1_def])
  have c1: "getNeighbors CONFIG w1 (particles w1 ! Suc 0) = [Suc 0]"
    using n1 by (simp add: w1_def p [unfolded w1_def])
  have same: "(particles w1)[0 := addForce (0, 0) (particles w1 ! 0)] = particles w1"
      "(particles w1)[Suc 0 := addForce (0, 0) (particles w1 ! Suc 0)] = particles w1"
    by (simp_all add: p seam_world_def addForce_def Particle_def)
  have "applyForces_loop CONFIG w1 [0, Suc 0] = Inr w1"
    by (simp add: c0 c1 same)
  then have "applyForces CONFIG seam_world = Inr (buildSpatialHash seam_world)"
    unfolding applyForces_def Let_def w1_def [symmetric] idx .
  with dist force n0 n1 show ?thesis by (simp add: CONFIG_def)
qed

text \<open>
  Where the query does return every particle in range: under bounce mode always, and
  under wrap mode when both extents are whole multiples of the cell size and both
  particles are inside the canvas. The interaction radius is at most the cell size (in
  the program both are 80).
\<close>

lemma loop_member:
  "j \<in> set (bucket (buildSpatialHash_loop ps k h) key) \<longleftrightarrow>
     j \<in> set (bucket h key) \<or> (k \<le> j \<and> j < k + length ps \<and> cellKey (ps ! (j - k)) = key)"
proof (induction ps arbitrary: k h)
  case Nil
  then show ?case by auto
next
  case (Cons p ps)
  let ?h = "h(cellKey p \<mapsto> bucket h (cellKey p) @ [k])"
  have step: "buildSpatialHash_loop (p # ps) k h = buildSpatialHash_loop ps (Suc k) ?h"
    by (simp add: cellKey_def bucket_def Let_def)
  have b: "j \<in> set (bucket ?h key) \<longleftrightarrow> j \<in> set (bucket h key) \<or> (j = k \<and> cellKey p = key)"
    by (auto simp add: bucket_def)
  have nth: "(p # ps) ! (j - k) = (if j = k then p else ps ! (j - Suc k))" if "k \<le> j"
    using that by (auto simp add: nth_Cons' Suc_diff_le)
  show ?case
    unfolding step Cons.IH b
    using nth by (cases "j = k"; cases "k \<le> j") auto
qed

lemma hash_member:
  "j \<in> set (bucket (spatialHash (buildSpatialHash w)) key) \<longleftrightarrow>
     j < length (particles w) \<and> cellKey (particles w ! j) = key"
  by (simp add: buildSpatialHash_def loop_member) (simp add: bucket_def)

lemma getNeighbors_member:
  "j \<in> set (getNeighbors cfg w p) \<longleftrightarrow>
     (\<exists>dx \<in> {- 1, 0, 1}. \<exists>dy \<in> {- 1, 0, 1}.
        j \<in> set (bucket (spatialHash w)
               (neighborKey cfg w (\<lfloor>pos_x p / cellSize\<rfloor> + dx, \<lfloor>pos_y p / cellSize\<rfloor> + dy))))"
  by (simp add: getNeighbors_def Let_def bucket_def)

lemma floor_near:
  fixes a b c :: real
  assumes "0 < c" and "\<bar>a - b\<bar> < c"
  shows "\<lfloor>a / c\<rfloor> - \<lfloor>b / c\<rfloor> \<in> {- 1, 0, 1}"
proof -
  have "\<bar>a / c - b / c\<bar> < 1"
    using assms by (simp add: diff_divide_distrib [symmetric] abs_less_iff field_simps)
  then have "a / c < b / c + 1" "b / c < a / c + 1" by (simp_all add: abs_less_iff)
  then have "\<lfloor>a / c\<rfloor> \<le> \<lfloor>b / c\<rfloor> + 1" "\<lfloor>b / c\<rfloor> \<le> \<lfloor>a / c\<rfloor> + 1"
    by linarith+
  then show ?thesis by auto
qed

lemma abs_le_norm:
  fixes dx dy :: real
  shows "\<bar>dx\<bar> \<le> sqrt (dx * dx + dy * dy)" "\<bar>dy\<bar> \<le> sqrt (dx * dx + dy * dy)"
  by (simp_all add: power2_eq_square [symmetric])


lemma cellSize_pos: "0 < cellSize"
  by (simp add: cellSize_def CONFIG_def)

lemma foldCell_cases:
  assumes "0 \<le> n" and "n < m"
  shows "foldCell m n = n" and "foldCell m (n - m) = n" and "foldCell m (n + m) = n"
  using assms by (simp_all add: foldCell_def Let_def)

lemma fold_axis:
  fixes a b c W :: real
  assumes "0 < c" and "W = of_int m * c"
    and "0 \<le> a" and "a < W" and "0 \<le> b" and "b < W"
    and "\<bar>wrapDelta W (b - a)\<bar> < c"
  shows "\<exists>k \<in> {- 1, 0, 1}. foldCell \<lceil>W / c\<rceil> (\<lfloor>a / c\<rfloor> + k) = \<lfloor>b / c\<rfloor>"
proof -
  define ca where "ca = \<lfloor>a / c\<rfloor>"
  define cb where "cb = \<lfloor>b / c\<rfloor>"
  have m: "\<lceil>W / c\<rceil> = m" using assms(1,2) by simp
  have cb: "0 \<le> cb" "cb < m"
    using assms(1,2,5,6) by (simp_all add: cb_def floor_less_iff field_simps)
  have shift_down: "\<lfloor>(b - W) / c\<rfloor> = cb - m"
    using assms(1,2) by (simp add: cb_def diff_divide_distrib)
  have shift_up: "\<lfloor>(b + W) / c\<rfloor> = cb + m"
    using assms(1,2) by (simp add: cb_def add_divide_distrib)
  have found: "\<exists>k \<in> {- 1, 0, 1}. foldCell m (ca + k) = cb"
    if "n - ca \<in> {- 1, 0, 1}" and "foldCell m n = cb" for n
  proof -
    have "foldCell m (ca + (n - ca)) = cb" using that(2) by simp
    with that(1) show ?thesis by blast
  qed
  consider (down) "b - a > W / 2" | (up) "\<not> b - a > W / 2" "b - a < - W / 2"
    | (none) "\<not> b - a > W / 2" "\<not> b - a < - W / 2"
    by blast
  then have "\<exists>k \<in> {- 1, 0, 1}. foldCell m (ca + k) = cb"
  proof cases
    case down
    then have "wrapDelta W (b - a) = b - a - W"
      using assms(3-6) by (simp add: wrapDelta_def Let_def)
    with assms(7) have "\<bar>(b - W) - a\<bar> < c" by (simp add: algebra_simps)
    from floor_near [OF assms(1) this]
    have "cb - m - ca \<in> {- 1, 0, 1}" unfolding shift_down ca_def .
    then show ?thesis using foldCell_cases(2) [OF cb] by (rule found)
  next
    case up
    then have "wrapDelta W (b - a) = b - a + W"
      by (simp add: wrapDelta_def Let_def)
    with assms(7) have "\<bar>(b + W) - a\<bar> < c" by (simp add: algebra_simps)
    from floor_near [OF assms(1) this]
    have "cb + m - ca \<in> {- 1, 0, 1}" unfolding shift_up ca_def .
    then show ?thesis using foldCell_cases(3) [OF cb] by (rule found)
  next
    case none
    then have "wrapDelta W (b - a) = b - a"
      by (simp add: wrapDelta_def Let_def)
    with assms(7) have "\<bar>b - a\<bar> < c" by simp
    from floor_near [OF assms(1) this]
    have "cb - ca \<in> {- 1, 0, 1}" unfolding cb_def ca_def .
    then show ?thesis using foldCell_cases(1) [OF cb] by (rule found)
  qed
  then show ?thesis unfolding m ca_def cb_def .
qed

lemma candidates_bounce:
  assumes "\<not> wrap cfg" and "interactionRadius cfg \<le> cellSize"
    and "j < length (particles w)"
    and "distance cfg w p (particles w ! j) < interactionRadius cfg"
  shows "j \<in> set (getNeighbors cfg (buildSpatialHash w) p)"
proof -
  let ?q = "particles w ! j"
  have sep: "separation cfg w p ?q = (pos_x ?q - pos_x p, pos_y ?q - pos_y p)"
    using assms(1) by (simp add: separation_def Let_def)
  have near: "\<bar>pos_x ?q - pos_x p\<bar> < cellSize" "\<bar>pos_y ?q - pos_y p\<bar> < cellSize"
    using assms(2,4) abs_le_norm [where dx = "pos_x ?q - pos_x p" and dy = "pos_y ?q - pos_y p"]
    unfolding distance_def sep by simp_all
  from floor_near [OF cellSize_pos near(1)] floor_near [OF cellSize_pos near(2)]
  obtain kx ky where k: "kx \<in> {- 1, 0, 1}" "ky \<in> {- 1, 0, 1}"
      "\<lfloor>pos_x p / cellSize\<rfloor> + kx = \<lfloor>pos_x ?q / cellSize\<rfloor>"
      "\<lfloor>pos_y p / cellSize\<rfloor> + ky = \<lfloor>pos_y ?q / cellSize\<rfloor>"
    by (metis add.commute diff_add_cancel)
  have key: "neighborKey cfg (buildSpatialHash w)
      (\<lfloor>pos_x p / cellSize\<rfloor> + kx, \<lfloor>pos_y p / cellSize\<rfloor> + ky) = cellKey ?q"
    using assms(1) k(3,4) by (simp add: neighborKey_def cellKey_def)
  have "j \<in> set (bucket (spatialHash (buildSpatialHash w)) (cellKey ?q))"
    using assms(3) by (simp add: hash_member)
  with key k(1,2) show ?thesis
    unfolding getNeighbors_member by metis
qed

lemma candidates_wrap_whole_cells:
  assumes "wrap cfg" and "interactionRadius cfg \<le> cellSize"
    and "width w = of_int mx * cellSize" and "height w = of_int my * cellSize"
    and "0 \<le> pos_x p" and "pos_x p < width w" and "0 \<le> pos_y p" and "pos_y p < height w"
    and "j < length (particles w)" and "q = particles w ! j"
    and "0 \<le> pos_x q" and "pos_x q < width w" and "0 \<le> pos_y q" and "pos_y q < height w"
    and "distance cfg w p q < interactionRadius cfg"
  shows "j \<in> set (getNeighbors cfg (buildSpatialHash w) p)"
proof -
  have sep: "separation cfg w p q =
      (wrapDelta (width w) (pos_x q - pos_x p), wrapDelta (height w) (pos_y q - pos_y p))"
    using assms(1) by (simp add: separation_def Let_def)
  have near: "\<bar>wrapDelta (width w) (pos_x q - pos_x p)\<bar> < cellSize"
      "\<bar>wrapDelta (height w) (pos_y q - pos_y p)\<bar> < cellSize"
    using assms(2,15)
      abs_le_norm [where dx = "wrapDelta (width w) (pos_x q - pos_x p)"
        and dy = "wrapDelta (height w) (pos_y q - pos_y p)"]
    unfolding distance_def sep by simp_all
  from fold_axis [OF cellSize_pos assms(3,5,6,11,12) near(1)]
  obtain kx where kx: "kx \<in> {- 1, 0, 1}"
      "foldCell \<lceil>width w / cellSize\<rceil> (\<lfloor>pos_x p / cellSize\<rfloor> + kx) = \<lfloor>pos_x q / cellSize\<rfloor>"
    by blast
  from fold_axis [OF cellSize_pos assms(4,7,8,13,14) near(2)]
  obtain ky where ky: "ky \<in> {- 1, 0, 1}"
      "foldCell \<lceil>height w / cellSize\<rceil> (\<lfloor>pos_y p / cellSize\<rfloor> + ky) = \<lfloor>pos_y q / cellSize\<rfloor>"
    by blast
  have key: "neighborKey cfg (buildSpatialHash w)
      (\<lfloor>pos_x p / cellSize\<rfloor> + kx, \<lfloor>pos_y p / cellSize\<rfloor> + ky) = cellKey q"
    using assms(1) kx(2) ky(2) by (simp add: neighborKey_def cellKey_def buildSpatialHash_def)
  have "j \<in> set (bucket (spatialHash (buildSpatialHash w)) (cellKey q))"
    using assms(9,10) by (simp add: hash_member)
  with key kx(1) ky(1) show ?thesis
    unfolding getNeighbors_member by metis
qed

end
